theory Spec2Isabelle
  imports Complex_Main "HOL-Library.List_Lexorder" "HOL-Library.Sublist"
begin

section \<open>Text and decoded data\<close>

text \<open>
  A Python \<^verbatim>\<open>str\<close> is a sequence of Unicode code points; it is modelled as a list of
  natural numbers, one per code point. Lists of numbers are ordered lexicographically
  (\<open>List_Lexorder\<close>), which is the order Python's \<^verbatim>\<open>sorted\<close> uses on strings.
\<close>

type_synonym ustr = "nat list"

definition ascii :: "string \<Rightarrow> ustr" where
  "ascii s = map of_char s"

text \<open>
  The value \<^verbatim>\<open>r.json()\<close> decodes to. A decoded object is kept as the list of its
  key/value pairs, in document order; a decoded object holds each key once. Integers
  and floating-point numbers are told apart as the decoder tells them apart; the
  analyzer never looks into a number.
\<close>

datatype json =
    JNull
  | JBool bool
  | JInt int
  | JFloat rat
  | JStr ustr
  | JList "json list"
  | JObj "(ustr \<times> json) list"

text \<open>
  The exceptions that can leave the analyzer: the three the interpreter raises on
  ill-shaped data, and whatever the configuration collaborator raises while loading.
\<close>

datatype exn = KeyError | TypeError | AttributeError | ConfigError

definition sbind :: "exn + 'a \<Rightarrow> ('a \<Rightarrow> exn + 'b) \<Rightarrow> exn + 'b" where
  "sbind m f = (case m of Inl e \<Rightarrow> Inl e | Inr x \<Rightarrow> f x)"

fun mapM :: "('a \<Rightarrow> exn + 'b) \<Rightarrow> 'a list \<Rightarrow> exn + 'b list" where
  "mapM f [] = Inr []"
| "mapM f (x # xs) = sbind (f x) (\<lambda>y. sbind (mapM f xs) (\<lambda>ys. Inr (y # ys)))"

text \<open>\<^verbatim>\<open>x.get(k, default)\<close>: only a dict has the method.\<close>

definition py_get :: "json \<Rightarrow> ustr \<Rightarrow> json \<Rightarrow> exn + json" where
  "py_get x k dflt =
     (case x of
        JObj kvs \<Rightarrow> Inr (case map_of kvs k of Some v \<Rightarrow> v | None \<Rightarrow> dflt)
      | _ \<Rightarrow> Inl AttributeError)"

text \<open>\<^verbatim>\<open>x[k]\<close> with a string key \<open>k\<close>: a dict without the key raises KeyError, every
  other value raises TypeError (a list or a string wants an integer index, the rest
  is not subscriptable).\<close>

definition py_index :: "json \<Rightarrow> ustr \<Rightarrow> exn + json" where
  "py_index x k =
     (case x of
        JObj kvs \<Rightarrow> (case map_of kvs k of Some v \<Rightarrow> Inr v | None \<Rightarrow> Inl KeyError)
      | _ \<Rightarrow> Inl TypeError)"

text \<open>Iteration (\<^verbatim>\<open>for x in v\<close>, \<^verbatim>\<open>list.extend(v)\<close>): a list gives its elements, a string
  its characters, a dict its keys; nothing else is iterable.\<close>

definition py_iter :: "json \<Rightarrow> exn + json list" where
  "py_iter v =
     (case v of
        JList xs \<Rightarrow> Inr xs
      | JStr s \<Rightarrow> Inr (map (\<lambda>c. JStr [c]) s)
      | JObj kvs \<Rightarrow> Inr (map (\<lambda>kv. JStr (fst kv)) kvs)
      | _ \<Rightarrow> Inl TypeError)"

text \<open>\<^verbatim>\<open>sorted(set(xs))\<close> on strings.\<close>

definition sorted_set :: "ustr list \<Rightarrow> ustr list" where
  "sorted_set xs = sort (remdups xs)"

text \<open>\<^verbatim>\<open>needle in haystack\<close> on two strings: literal substring containment.\<close>

fun str_contains :: "ustr \<Rightarrow> ustr \<Rightarrow> bool" where
  "str_contains needle [] = (needle = [])"
| "str_contains needle (c # cs) = (prefix needle (c # cs) \<or> str_contains needle cs)"

text \<open>\<^verbatim>\<open>text.replace(old, "")\<close>: one scan from the left, each occurrence found is skipped
  and the scan goes on behind it; an empty \<open>old\<close> leaves the text as it is.\<close>

function replace_empty :: "ustr \<Rightarrow> ustr \<Rightarrow> ustr" where
  "replace_empty old [] = []"
| "replace_empty old (c # cs) =
     (if old \<noteq> [] \<and> prefix old (c # cs)
      then replace_empty old (drop (length old) (c # cs))
      else c # replace_empty old cs)"
  by pat_completeness auto
termination
  by (relation "measure (\<lambda>(old, text). length text)") auto

text \<open>\<^verbatim>\<open>Counter(words)\<close>: each distinct word with the number of its occurrences.\<close>

definition Counter :: "ustr list \<Rightarrow> (ustr \<rightharpoonup> nat)" where
  "Counter ws = (\<lambda>w. if w \<in> set ws then Some (count_list ws w) else None)"

section \<open>Dictionaries and the process state\<close>

text \<open>
  The data of a dictionary file: a mapping from a category key to a list of strings
  (\<^verbatim>\<open>Dict[str, list]\<close>), kept as the list of its entries. The same shape is what the
  unrecognized-word file holds.
\<close>

type_synonym ydict = "(ustr \<times> ustr list) list"

definition dict_get :: "ydict \<Rightarrow> ustr \<Rightarrow> ustr list \<Rightarrow> ustr list" where
  "dict_get d k dflt = (case map_of d k of Some v \<Rightarrow> v | None \<Rightarrow> dflt)"

text \<open>
  The state one process runs on: the class attribute \<^verbatim>\<open>LOADED_DICTIONARIES\<close>, the file
  \<^verbatim>\<open>unrecognized_words.yaml\<close> (\<open>None\<close> while it does not exist), and a log of the
  names the configuration source has been asked to load, oldest first. The log is
  not a variable of the program: it records the reads so that they can be counted.
  Requests are run one after another; reading and writing the file are taken to succeed.
\<close>

record world =
  LOADED_DICTIONARIES :: "ustr \<rightharpoonup> ydict"
  unrecognized_words_yaml :: "ydict option"
  config_loads :: "ustr list"

definition fresh_process :: "ydict option \<Rightarrow> world" where
  "fresh_process file =
     \<lparr>LOADED_DICTIONARIES = Map.empty, unrecognized_words_yaml = file, config_loads = []\<rparr>"

text \<open>
  \<^verbatim>\<open>_load_yaml_dict\<close>. The configuration manager is a collaborator: \<open>cfg file\<close> is what
  constructing it for \<open>file\<close> and awaiting \<^verbatim>\<open>load_config\<close> gives, its \<^verbatim>\<open>data\<close> or the
  exception it raises. An exception leaves the cache as it was.
\<close>

definition load_yaml_dict ::
  "(ustr \<Rightarrow> exn + ydict) \<Rightarrow> ustr \<Rightarrow> world \<Rightarrow> (exn + ydict) \<times> world" where
  "load_yaml_dict cfg file w =
     (case LOADED_DICTIONARIES w file of
        Some d \<Rightarrow> (Inr d, w)
      | None \<Rightarrow>
          (let w1 = w\<lparr>config_loads := config_loads w @ [file]\<rparr> in
           case cfg file of
             Inl e \<Rightarrow> (Inl e, w1)
           | Inr d \<Rightarrow>
               (Inr d, w1\<lparr>LOADED_DICTIONARIES := (LOADED_DICTIONARIES w1)(file \<mapsto> d)\<rparr>)))"

text \<open>A process that loads one name after another, each against the configuration
  source as it is at that moment.\<close>

fun load_all :: "((ustr \<Rightarrow> exn + ydict) \<times> ustr) list \<Rightarrow> world \<Rightarrow> world" where
  "load_all [] w = w"
| "load_all ((cfg, file) # rest) w = load_all rest (snd (load_yaml_dict cfg file w))"

section \<open>Text normalizer\<close>

text \<open>The loop of \<^verbatim>\<open>_remove_meaningless\<close>: one \<^verbatim>\<open>replace\<close> per phrase, in dictionary order.\<close>

fun strip_phrases :: "ustr list \<Rightarrow> ustr \<Rightarrow> ustr" where
  "strip_phrases [] text = text"
| "strip_phrases (word # rest) text = strip_phrases rest (replace_empty word text)"

definition remove_meaningless ::
  "(ustr \<Rightarrow> exn + ydict) \<Rightarrow> ustr \<Rightarrow> world \<Rightarrow> (exn + ustr) \<times> world" where
  "remove_meaningless cfg text w =
     (case load_yaml_dict cfg (ascii ''meaningless'') w of
        (Inl e, w1) \<Rightarrow> (Inl e, w1)
      | (Inr meaningless_dict, w1) \<Rightarrow>
          (Inr (strip_phrases (dict_get meaningless_dict (ascii ''meaningless'') []) text), w1))"

section \<open>Segmentation client\<close>

text \<open>
  The HTTP service is a collaborator: \<open>api text\<close> is what posting \<open>text\<close> and decoding
  the answer gives, the decoded value or the class of the exception raised inside
  the \<^verbatim>\<open>try\<close> block, one class for each \<^verbatim>\<open>except\<close> clause in the order of the clauses.
  What is not an \<^verbatim>\<open>Exception\<close> (an interrupt, an exit) is not modelled.
\<close>

datatype api_failure = RequestException | JSONDecodeError | OtherException

definition error_payload :: "string \<Rightarrow> json" where
  "error_payload reason = JObj [(ascii ''error'', JStr (ascii reason))]"

definition call_texsmart_api :: "(ustr \<Rightarrow> api_failure + json) \<Rightarrow> ustr \<Rightarrow> json" where
  "call_texsmart_api api text =
     (case api text of
        Inr r \<Rightarrow> r
      | Inl RequestException \<Rightarrow> error_payload ''Request failed''
      | Inl JSONDecodeError \<Rightarrow> error_payload ''JSON decode failed''
      | Inl OtherException \<Rightarrow> error_payload ''An unexpected error occurred'')"

record token =
  tok_str :: json
  tok_tag :: json

record entity = token +
  i18n :: json
  related :: json

record parsed_data =
  word_list :: "token list"
  phrase_list :: "token list"
  entity_list :: "entity list"

definition parse_token :: "json \<Rightarrow> exn + token" where
  "parse_token word =
     sbind (py_index word (ascii ''str'')) (\<lambda>s.
     sbind (py_index word (ascii ''tag'')) (\<lambda>t.
     Inr \<lparr>tok_str = s, tok_tag = t\<rparr>))"

definition parse_entity :: "json \<Rightarrow> exn + entity" where
  "parse_entity ent =
     sbind (py_get ent (ascii ''meaning'') (JObj [])) (\<lambda>entity_meaning.
     sbind (py_index ent (ascii ''str'')) (\<lambda>s.
     sbind (py_index ent (ascii ''tag'')) (\<lambda>t.
     sbind (py_index ent (ascii ''type'')) (\<lambda>ty.
     sbind (py_get ty (ascii ''i18n'') (JStr [])) (\<lambda>l.
     sbind (py_get entity_meaning (ascii ''related'') (JList [])) (\<lambda>r.
     Inr \<lparr>tok_str = s, tok_tag = t, i18n = l, related = r\<rparr>))))))"

definition parse_texsmart_response :: "json \<Rightarrow> exn + parsed_data" where
  "parse_texsmart_response response =
     sbind (py_get response (ascii ''word_list'') (JList [])) (\<lambda>wl.
     sbind (py_iter wl) (\<lambda>ws.
     sbind (mapM parse_token ws) (\<lambda>words.
     sbind (py_get response (ascii ''phrase_list'') (JList [])) (\<lambda>pl.
     sbind (py_iter pl) (\<lambda>ps.
     sbind (mapM parse_token ps) (\<lambda>phrases.
     sbind (py_get response (ascii ''entity_list'') (JList [])) (\<lambda>el.
     sbind (py_iter el) (\<lambda>es.
     sbind (mapM parse_entity es) (\<lambda>entities.
     Inr \<lparr>word_list = words, phrase_list = phrases, entity_list = entities\<rparr>)))))))))"

section \<open>Token filters\<close>

text \<open>
  The two character classes of the regular expressions come from the interpreter's
  Unicode tables, which are not part of the program; the filters take them as
  parameters: \<open>wd\<close> is the class \<^verbatim>\<open>\w\<close> and \<open>dg\<close> the class \<^verbatim>\<open>\d\<close>.
\<close>

text \<open>The regular-expression search accepts a \<^verbatim>\<open>str\<close> only.\<close>

definition str_of :: "json \<Rightarrow> exn + ustr" where
  "str_of v = (case v of JStr s \<Rightarrow> Inr s | _ \<Rightarrow> Inl TypeError)"

text \<open>\<^verbatim>\<open>punct_pattern.search(word)\<close> for the pattern \<^verbatim>\<open>[^\w]\<close>.\<close>

definition punct_search :: "(nat \<Rightarrow> bool) \<Rightarrow> ustr \<Rightarrow> bool" where
  "punct_search wd word = list_ex (\<lambda>c. \<not> wd c) word"

definition remove_punctuation :: "(nat \<Rightarrow> bool) \<Rightarrow> json list \<Rightarrow> exn + ustr list" where
  "remove_punctuation wd words =
     sbind (mapM str_of words) (\<lambda>ws. Inr (filter (\<lambda>word. \<not> punct_search wd word) ws))"

text \<open>\<^verbatim>\<open>re.search(r"^\d+$", item)\<close>: the item is one or more digits, with at most one
  line feed behind them (\<^verbatim>\<open>$\<close> also matches before a final line feed).\<close>

definition search_only_digits :: "(nat \<Rightarrow> bool) \<Rightarrow> ustr \<Rightarrow> bool" where
  "search_only_digits dg item =
     (item \<noteq> [] \<and>
      (list_all dg item \<or> (last item = 10 \<and> butlast item \<noteq> [] \<and> list_all dg (butlast item))))"

text \<open>\<^verbatim>\<open>re.search(r"\d+U", item)\<close> for a unit character \<open>U\<close>: the pattern is not
  anchored, so it matches as soon as some digit stands directly before \<open>U\<close>.\<close>

fun search_digits_unit :: "(nat \<Rightarrow> bool) \<Rightarrow> nat \<Rightarrow> ustr \<Rightarrow> bool" where
  "search_digits_unit dg u (a # b # cs) = ((dg a \<and> b = u) \<or> search_digits_unit dg u (b # cs))"
| "search_digits_unit dg u cs = False"

definition year_char :: nat where "year_char = 0x5E74"
definition month_char :: nat where "month_char = 0x6708"
definition day_char :: nat where "day_char = 0x65E5"
definition minute_char :: nat where "minute_char = 0x5206"

definition is_unwanted :: "(nat \<Rightarrow> bool) \<Rightarrow> ustr \<Rightarrow> bool" where
  "is_unwanted dg item =
     (search_only_digits dg item \<or> search_digits_unit dg year_char item \<or>
      search_digits_unit dg month_char item \<or> search_digits_unit dg day_char item \<or>
      search_digits_unit dg minute_char item)"

definition remove_unless_words :: "(nat \<Rightarrow> bool) \<Rightarrow> ustr list \<Rightarrow> ustr list" where
  "remove_unless_words dg items =
     filter (\<lambda>item. length item > 1 \<and> \<not> is_unwanted dg item) items"

section \<open>Term frequency\<close>

text \<open>What \<^verbatim>\<open>term_freq\<close> does with the response once it has it.\<close>

definition term_freq_of_response ::
  "(nat \<Rightarrow> bool) \<Rightarrow> (nat \<Rightarrow> bool) \<Rightarrow> json \<Rightarrow> exn + ((ustr \<rightharpoonup> nat) \<times> ustr list \<times> ustr list)" where
  "term_freq_of_response wd dg response =
     sbind (parse_texsmart_response response) (\<lambda>parsed.
     sbind (mapM (\<lambda>e. py_iter (related e)) (entity_list parsed)) (\<lambda>rels.
     sbind (remove_punctuation wd (map tok_str (word_list parsed))) (\<lambda>words.
     sbind (remove_punctuation wd (map i18n (entity_list parsed))) (\<lambda>i18n_list.
     sbind (remove_punctuation wd (concat rels)) (\<lambda>related_list.
     Inr (Counter (sorted_set (remove_unless_words dg words)),
          sorted_set i18n_list, sorted_set related_list))))))"

definition term_freq ::
  "(nat \<Rightarrow> bool) \<Rightarrow> (nat \<Rightarrow> bool) \<Rightarrow> (ustr \<Rightarrow> exn + ydict) \<Rightarrow> (ustr \<Rightarrow> api_failure + json) \<Rightarrow>
     ustr \<Rightarrow> world \<Rightarrow> (exn + ((ustr \<rightharpoonup> nat) \<times> ustr list \<times> ustr list)) \<times> world" where
  "term_freq wd dg cfg api text w =
     (case remove_meaningless cfg text w of
        (Inl e, w1) \<Rightarrow> (Inl e, w1)
      | (Inr text1, w1) \<Rightarrow> (term_freq_of_response wd dg (call_texsmart_api api text1), w1))"

section \<open>Sentiment\<close>

record report =
  positive_num :: int
  negative_num :: int
  word_num :: int

record buckets =
  positive :: "ustr list"
  negative :: "ustr list"
  unrecognized :: "ustr list"

text \<open>The classification loop, on the two counters and the three buckets.\<close>

fun classify ::
  "ustr list \<Rightarrow> ustr list \<Rightarrow> ustr list \<Rightarrow> int \<times> int \<times> buckets \<Rightarrow> int \<times> int \<times> buckets" where
  "classify positive_list negative_list [] st = st"
| "classify positive_list negative_list (word # rest) (p, n, out) =
     (if word \<in> set positive_list
      then classify positive_list negative_list rest
             (p + 1, n, out\<lparr>positive := positive out @ [word]\<rparr>)
      else if list_ex (\<lambda>neg_word. str_contains neg_word word) negative_list
      then classify positive_list negative_list rest
             (p, n + 1, out\<lparr>negative := negative out @ [word]\<rparr>)
      else classify positive_list negative_list rest
             (p, n, out\<lparr>unrecognized := unrecognized out @ [word]\<rparr>))"

definition no_buckets :: buckets where
  "no_buckets = \<lparr>positive = [], negative = [], unrecognized = []\<rparr>"

text \<open>\<^verbatim>\<open>_save_unrecognized_words\<close>: the file is read when it exists and written whole.\<close>

definition save_unrecognized_words :: "ustr list \<Rightarrow> world \<Rightarrow> world" where
  "save_unrecognized_words words w =
     (let existing_words =
            (case unrecognized_words_yaml w of
               None \<Rightarrow> []
             | Some data \<Rightarrow>
                 (if data \<noteq> []
                  then (case map_of data (ascii ''unrecognized'') of Some ws \<Rightarrow> ws | None \<Rightarrow> [])
                  else []));
          combined_words = sorted_set (existing_words @ words)
      in w\<lparr>unrecognized_words_yaml := Some [(ascii ''unrecognized'', combined_words)]\<rparr>)"

text \<open>The phrase tokens \<^verbatim>\<open>sentiment\<close> classifies: the strings of the phrase list that
  hold no punctuation.\<close>

definition phrase_tokens :: "(nat \<Rightarrow> bool) \<Rightarrow> json \<Rightarrow> exn + ustr list" where
  "phrase_tokens wd response =
     sbind (parse_texsmart_response response) (\<lambda>parsed.
     remove_punctuation wd (map tok_str (phrase_list parsed)))"

text \<open>\<^verbatim>\<open>sentiment\<close>. What it prints is left out; the report it returns holds the three
  counters, the unrecognized bucket goes to the store.\<close>

definition sentiment ::
  "(nat \<Rightarrow> bool) \<Rightarrow> (ustr \<Rightarrow> exn + ydict) \<Rightarrow> (ustr \<Rightarrow> api_failure + json) \<Rightarrow>
     ustr \<Rightarrow> world \<Rightarrow> (exn + report) \<times> world" where
  "sentiment wd cfg api text w =
     (case remove_meaningless cfg text w of
        (Inl e, w1) \<Rightarrow> (Inl e, w1)
      | (Inr text1, w1) \<Rightarrow>
     (case load_yaml_dict cfg (ascii ''positive'') w1 of
        (Inl e, w2) \<Rightarrow> (Inl e, w2)
      | (Inr positive_dict, w2) \<Rightarrow>
     (case load_yaml_dict cfg (ascii ''negative'') w2 of
        (Inl e, w3) \<Rightarrow> (Inl e, w3)
      | (Inr negative_dict, w3) \<Rightarrow>
     (case phrase_tokens wd (call_texsmart_api api text1) of
        Inl e \<Rightarrow> (Inl e, w3)
      | Inr words \<Rightarrow>
          (case classify (dict_get positive_dict (ascii ''positive'') [])
                  (dict_get negative_dict (ascii ''negative'') []) words (0, 0, no_buckets) of
             (p, n, out) \<Rightarrow>
               (Inr \<lparr>positive_num = p, negative_num = n, word_num = int (length words)\<rparr>,
                save_unrecognized_words (sorted_set (unrecognized out)) w3))))))"

section \<open>Derived notions and concrete runs\<close>

text \<open>The phrases of the meaningless dictionary a process has in its cache.\<close>

definition cached_phrases :: "world \<Rightarrow> ustr list" where
  "cached_phrases w =
     (case LOADED_DICTIONARIES w (ascii ''meaningless'') of
        Some d \<Rightarrow> dict_get d (ascii ''meaningless'') []
      | None \<Rightarrow> [])"

text \<open>A configuration source whose meaningless dictionary holds the one phrase \<open>ab\<close>.\<close>

definition ab_cfg :: "ustr \<Rightarrow> exn + ydict" where
  "ab_cfg file = Inr [(ascii ''meaningless'', [ascii ''ab''])]"

text \<open>The list the unrecognized-word file holds; empty while there is no file.\<close>

definition stored_words :: "world \<Rightarrow> ustr list" where
  "stored_words w =
     (case unrecognized_words_yaml w of
        None \<Rightarrow> []
      | Some data \<Rightarrow> dict_get data (ascii ''unrecognized'') [])"

text \<open>One save after another, as sequential runs of the analysis make them.\<close>

fun save_runs :: "ustr list list \<Rightarrow> world \<Rightarrow> world" where
  "save_runs [] w = w"
| "save_runs (ws # rest) w = save_runs rest (save_unrecognized_words ws w)"

text \<open>
  Character classes for concrete runs: \<^verbatim>\<open>\w\<close> and \<^verbatim>\<open>\d\<close> on ASCII, with the CJK unified
  ideographs as word characters. The theorems hold for every pair of classes.
\<close>

definition basic_word :: "nat \<Rightarrow> bool" where
  "basic_word c =
     ((48 \<le> c \<and> c \<le> 57) \<or> (65 \<le> c \<and> c \<le> 90) \<or> c = 95 \<or> (97 \<le> c \<and> c \<le> 122)
      \<or> (0x4E00 \<le> c \<and> c \<le> 0x9FFF))"

definition basic_digit :: "nat \<Rightarrow> bool" where
  "basic_digit c = (48 \<le> c \<and> c \<le> 57)"

text \<open>A configuration source with the positive word \<open>good\<close>, the negative word \<open>bad\<close>
  and no meaningless phrase; a service that answers with a given list of phrases.\<close>

definition good_bad_cfg :: "ustr \<Rightarrow> exn + ydict" where
  "good_bad_cfg file =
     (if file = ascii ''positive'' then Inr [(ascii ''positive'', [ascii ''good''])]
      else if file = ascii ''negative'' then Inr [(ascii ''negative'', [ascii ''bad''])]
      else Inr [(ascii ''meaningless'', [])])"

definition phrase :: "string \<Rightarrow> json" where
  "phrase s = JObj [(ascii ''str'', JStr (ascii s)), (ascii ''tag'', JStr (ascii ''n''))]"

definition phrases_api :: "string list \<Rightarrow> ustr \<Rightarrow> api_failure + json" where
  "phrases_api ss t = Inr (JObj [(ascii ''phrase_list'', JList (map phrase ss))])"

text \<open>The process once the three dictionaries of \<open>good_bad_cfg\<close> are in the cache.\<close>

definition loaded_world :: "ydict option \<Rightarrow> world" where
  "loaded_world file =
     \<lparr>LOADED_DICTIONARIES =
        [ascii ''meaningless'' \<mapsto> [(ascii ''meaningless'', [])],
         ascii ''positive'' \<mapsto> [(ascii ''positive'', [ascii ''good''])],
         ascii ''negative'' \<mapsto> [(ascii ''negative'', [ascii ''bad''])]],
      unrecognized_words_yaml = file,
      config_loads = [ascii ''meaningless'', ascii ''positive'', ascii ''negative'']\<rparr>"

text \<open>The response a run of the analysis receives from the client; \<open>None\<close> when the run
  stops before the call, on a failed dictionary load.\<close>

definition response_seen ::
  "(ustr \<Rightarrow> exn + ydict) \<Rightarrow> (ustr \<Rightarrow> api_failure + json) \<Rightarrow> ustr \<Rightarrow> world \<Rightarrow> json option" where
  "response_seen cfg api txt w =
     (case remove_meaningless cfg txt w of
        (Inl e, w1) \<Rightarrow> None
      | (Inr t1, w1) \<Rightarrow> Some (call_texsmart_api api t1))"

text \<open>A service that answers every text with the same response.\<close>

definition const_api :: "json \<Rightarrow> ustr \<Rightarrow> api_failure + json" where
  "const_api response t = Inr response"

definition fruit_response :: json where
  "fruit_response =
     JObj [(ascii ''word_list'',
            JList [phrase ''pear'', phrase ''apple'', phrase ''pear'', phrase ''7'', phrase ''a,b''])]"

text \<open>
  A response with five words and one entity: the words \<open>pear\<close>, \<open>2024\<close> followed by the
  year character, \<open>5\<close>, \<open>x\<close> and \<open>a,b\<close>; the entity has the label \<open>5\<close> and the related
  concepts \<open>2024\<close> followed by the year character, and \<open>7\<close>.
\<close>

definition date_response :: json where
  "date_response =
     JObj [(ascii ''word_list'',
            JList [phrase ''pear'',
                   JObj [(ascii ''str'', JStr (ascii ''2024'' @ [year_char])),
                         (ascii ''tag'', JStr (ascii ''t''))],
                   phrase ''5'', phrase ''x'', phrase ''a,b'']),
           (ascii ''entity_list'',
            JList [JObj [(ascii ''str'', JStr (ascii ''pear'')),
                         (ascii ''tag'', JStr (ascii ''n'')),
                         (ascii ''type'', JObj [(ascii ''i18n'', JStr (ascii ''5''))]),
                         (ascii ''meaning'',
                          JObj [(ascii ''related'',
                                 JList [JStr (ascii ''2024'' @ [year_char]), JStr (ascii ''7'')])])]])]"

text \<open>A response with one entity whose \<open>type\<close> object has no \<open>i18n\<close> key and which has
  no \<open>meaning\<close>.\<close>

definition unlabelled_response :: json where
  "unlabelled_response =
     JObj [(ascii ''entity_list'',
            JList [JObj [(ascii ''str'', JStr (ascii ''pear'')),
                         (ascii ''tag'', JStr (ascii ''n'')),
                         (ascii ''type'', JObj [(ascii ''name'', JStr (ascii ''fruit''))])]])]"

text \<open>
  The shape of a response on which the normalization does not raise: an object whose
  \<open>word_list\<close>, \<open>phrase_list\<close> and \<open>entity_list\<close>, where present, are lists of objects that
  each have the keys \<open>str\<close> and \<open>tag\<close>, an entity having also an object under \<open>type\<close>
  and, where it has the key \<open>meaning\<close>, an object under it.
\<close>

definition lookup_or :: "json \<Rightarrow> ustr \<Rightarrow> json \<Rightarrow> json" where
  "lookup_or x k dflt =
     (case x of
        JObj kvs \<Rightarrow> (case map_of kvs k of Some v \<Rightarrow> v | None \<Rightarrow> dflt)
      | _ \<Rightarrow> dflt)"

definition has_key :: "json \<Rightarrow> ustr \<Rightarrow> bool" where
  "has_key x k = (case x of JObj kvs \<Rightarrow> map_of kvs k \<noteq> None | _ \<Rightarrow> False)"

definition is_object :: "json \<Rightarrow> bool" where
  "is_object x = (case x of JObj kvs \<Rightarrow> True | _ \<Rightarrow> False)"

definition elements :: "json \<Rightarrow> json list" where
  "elements v = (case v of JList xs \<Rightarrow> xs | _ \<Rightarrow> [])"

definition is_list :: "json \<Rightarrow> bool" where
  "is_list v = (case v of JList xs \<Rightarrow> True | _ \<Rightarrow> False)"

definition token_shaped :: "json \<Rightarrow> bool" where
  "token_shaped x = (has_key x (ascii ''str'') \<and> has_key x (ascii ''tag''))"

definition entity_shaped :: "json \<Rightarrow> bool" where
  "entity_shaped x =
     (token_shaped x \<and> has_key x (ascii ''type'')
      \<and> is_object (lookup_or x (ascii ''type'') JNull)
      \<and> is_object (lookup_or x (ascii ''meaning'') (JObj [])))"

definition list_field :: "json \<Rightarrow> string \<Rightarrow> json" where
  "list_field response k = lookup_or response (ascii k) (JList [])"

definition response_shaped :: "json \<Rightarrow> bool" where
  "response_shaped response =
     (is_object response
      \<and> is_list (list_field response ''word_list'')
      \<and> list_all token_shaped (elements (list_field response ''word_list''))
      \<and> is_list (list_field response ''phrase_list'')
      \<and> list_all token_shaped (elements (list_field response ''phrase_list''))
      \<and> is_list (list_field response ''entity_list'')
      \<and> list_all entity_shaped (elements (list_field response ''entity_list'')))"

text \<open>
  What the normalization returns on such a response: the \<open>str\<close> and \<open>tag\<close> of every
  element; for an entity also the \<open>i18n\<close> of its type, the empty string when the type has
  none, and the \<open>related\<close> of its meaning, the empty list when there is no meaning or the
  meaning has none. (On a shaped response the keys \<open>str\<close>, \<open>tag\<close> and \<open>type\<close> are
  there; the default written for them is never taken.)
\<close>

definition shaped_token :: "json \<Rightarrow> token" where
  "shaped_token x =
     \<lparr>tok_str = lookup_or x (ascii ''str'') JNull, tok_tag = lookup_or x (ascii ''tag'') JNull\<rparr>"

definition shaped_entity :: "json \<Rightarrow> entity" where
  "shaped_entity x =
     \<lparr>tok_str = lookup_or x (ascii ''str'') JNull, tok_tag = lookup_or x (ascii ''tag'') JNull,
      i18n = lookup_or (lookup_or x (ascii ''type'') JNull) (ascii ''i18n'') (JStr []),
      related = lookup_or (lookup_or x (ascii ''meaning'') (JObj [])) (ascii ''related'') (JList [])\<rparr>"

definition shaped_parse :: "json \<Rightarrow> parsed_data" where
  "shaped_parse response =
     \<lparr>word_list = map shaped_token (elements (list_field response ''word_list'')),
      phrase_list = map shaped_token (elements (list_field response ''phrase_list'')),
      entity_list = map shaped_entity (elements (list_field response ''entity_list''))\<rparr>"

text \<open>A configuration source that raises on every load, and a service whose every call
  fails with a given class of exception.\<close>

definition failing_cfg :: "ustr \<Rightarrow> exn + ydict" where
  "failing_cfg name = Inl ConfigError"

definition failing_api :: "api_failure \<Rightarrow> ustr \<Rightarrow> api_failure + json" where
  "failing_api failure t = Inl failure"

section \<open>Basic facts\<close>

lemma ascii_eq_iff [simp]: "ascii s = ascii t \<longleftrightarrow> s = t"
  by (simp add: ascii_def inj_map_eq_map inj_of_char)

lemma sbind_Inr_iff: "sbind m f = Inr y \<longleftrightarrow> (\<exists>x. m = Inr x \<and> f x = Inr y)"
  by (cases m) (simp_all add: sbind_def)

lemma sbind_Inr [simp]: "sbind (Inr x) f = f x"
  by (simp add: sbind_def)

lemma sbind_Inl [simp]: "sbind (Inl e) f = Inl e"
  by (simp add: sbind_def)

lemma mapM_Inr_iff: "mapM f xs = Inr ys \<longleftrightarrow> list_all2 (\<lambda>x y. f x = Inr y) xs ys"
proof (induction xs arbitrary: ys)
  case Nil
  then show ?case by auto
next
  case (Cons x xs)
  show ?case
    by (cases ys) (auto simp: sbind_Inr_iff Cons.IH)
qed

lemma str_contains_iff_sublist: "str_contains needle hay \<longleftrightarrow> sublist needle hay"
  by (induction hay) (simp_all add: sublist_Cons_right)

lemma replace_empty_absent:
  "needle = [] \<or> \<not> str_contains needle txt \<Longrightarrow> replace_empty needle txt = txt"
  by (induction needle "txt" rule: replace_empty.induct) auto

lemma strip_phrases_absent:
  "\<forall>p \<in> set ps. p \<noteq> [] \<longrightarrow> \<not> str_contains p txt \<Longrightarrow> strip_phrases ps txt = txt"
  by (induction ps) (auto simp: replace_empty_absent)

lemma load_yaml_dict_cached:
  "LOADED_DICTIONARIES w file = Some d \<Longrightarrow> load_yaml_dict cfg file w = (Inr d, w)"
  by (simp add: load_yaml_dict_def)

lemma load_yaml_dict_Inr:
  "load_yaml_dict cfg file w = (Inr d, w1) \<Longrightarrow> LOADED_DICTIONARIES w1 file = Some d"
  by (auto simp: load_yaml_dict_def Let_def split: option.splits sum.splits)

lemma remove_meaningless_Inr:
  assumes "remove_meaningless cfg txt w = (Inr t1, w1)"
  shows "LOADED_DICTIONARIES w1 (ascii ''meaningless'') \<noteq> None"
    and "t1 = strip_phrases (cached_phrases w1) txt"
  using assms
  by (auto simp: remove_meaningless_def cached_phrases_def split: prod.splits sum.splits
      dest: load_yaml_dict_Inr)

lemma remove_meaningless_cached:
  "LOADED_DICTIONARIES w (ascii ''meaningless'') \<noteq> None \<Longrightarrow>
     remove_meaningless cfg txt w = (Inr (strip_phrases (cached_phrases w) txt), w)"
  by (auto simp: remove_meaningless_def cached_phrases_def load_yaml_dict_cached)

lemma sorted_set_eq: "sorted_set xs = sorted_list_of_set (set xs)"
  by (simp add: sorted_set_def sorted_list_of_set_sort_remdups)

lemma sorted_set_props [simp]:
  "set (sorted_set xs) = set xs" "sorted (sorted_set xs)" "distinct (sorted_set xs)"
  by (simp_all add: sorted_set_def)

lemma classify_result:
  "classify pos neg ws (p, n, out) =
     (p + int (length (filter (\<lambda>x. x \<in> set pos) ws)),
      n + int (length (filter (\<lambda>x. x \<notin> set pos \<and> (\<exists>nw \<in> set neg. sublist nw x)) ws)),
      out\<lparr>positive := positive out @ filter (\<lambda>x. x \<in> set pos) ws,
          negative := negative out @ filter (\<lambda>x. x \<notin> set pos \<and> (\<exists>nw \<in> set neg. sublist nw x)) ws,
          unrecognized := unrecognized out
             @ filter (\<lambda>x. x \<notin> set pos \<and> \<not> (\<exists>nw \<in> set neg. sublist nw x)) ws\<rparr>)"
  by (induction ws arbitrary: p n out)
     (simp_all add: list_ex_iff str_contains_iff_sublist)

lemma sentiment_Inr:
  assumes "sentiment wd cfg api txt w = (Inr r, w')"
  obtains t1 w1 pd w2 nd w3 ws where
    "remove_meaningless cfg txt w = (Inr t1, w1)"
    "load_yaml_dict cfg (ascii ''positive'') w1 = (Inr pd, w2)"
    "load_yaml_dict cfg (ascii ''negative'') w2 = (Inr nd, w3)"
    "phrase_tokens wd (call_texsmart_api api t1) = Inr ws"
  using assms
  by (auto simp: sentiment_def split: prod.splits sum.splits)

lemma sentiment_run:
  assumes "remove_meaningless cfg txt w = (Inr t1, w1)"
    and "load_yaml_dict cfg (ascii ''positive'') w1 = (Inr pd, w2)"
    and "load_yaml_dict cfg (ascii ''negative'') w2 = (Inr nd, w3)"
    and "phrase_tokens wd (call_texsmart_api api t1) = Inr ws"
  shows "sentiment wd cfg api txt w =
     (Inr \<lparr>positive_num = int (length (filter (\<lambda>x. x \<in> set (dict_get pd (ascii ''positive'') [])) ws)),
           negative_num = int (length (filter (\<lambda>x. x \<notin> set (dict_get pd (ascii ''positive'') [])
                \<and> (\<exists>nw \<in> set (dict_get nd (ascii ''negative'') []). sublist nw x)) ws)),
           word_num = int (length ws)\<rparr>,
      save_unrecognized_words
        (sorted_set (filter (\<lambda>x. x \<notin> set (dict_get pd (ascii ''positive'') [])
                \<and> \<not> (\<exists>nw \<in> set (dict_get nd (ascii ''negative'') []). sublist nw x)) ws)) w3)"
  using assms by (simp add: sentiment_def classify_result no_buckets_def)

lemma length_filter_two:
  "length (filter P xs) + length (filter (\<lambda>x. \<not> P x \<and> Q x) xs) \<le> length xs"
  by (induction xs) auto

lemma stored_words_save:
  "stored_words (save_unrecognized_words ws w) = sorted_set (stored_words w @ ws)"
  "unrecognized_words_yaml (save_unrecognized_words ws w) =
     Some [(ascii ''unrecognized'', sorted_set (stored_words w @ ws))]"
  by (auto simp: save_unrecognized_words_def stored_words_def dict_get_def Let_def
      split: option.splits)

lemma stored_words_save_runs:
  "set (stored_words (save_runs runs w)) = set (stored_words w) \<union> \<Union> (set ` set runs)"
  by (induction runs arbitrary: w) (auto simp: stored_words_save)

subsection \<open>Concrete runs\<close>

lemma loaded_world_normalize:
  "remove_meaningless cfg txt (loaded_world file) = (Inr txt, loaded_world file)"
  by (simp add: remove_meaningless_def load_yaml_dict_def loaded_world_def dict_get_def)

lemma loaded_world_positive:
  "load_yaml_dict cfg (ascii ''positive'') (loaded_world file) =
     (Inr [(ascii ''positive'', [ascii ''good''])], loaded_world file)"
  by (simp add: load_yaml_dict_def loaded_world_def)

lemma loaded_world_negative:
  "load_yaml_dict cfg (ascii ''negative'') (loaded_world file) =
     (Inr [(ascii ''negative'', [ascii ''bad''])], loaded_world file)"
  by (simp add: load_yaml_dict_def loaded_world_def)

lemma parse_token_phrase:
  "parse_token (phrase s) = Inr \<lparr>tok_str = JStr (ascii s), tok_tag = JStr (ascii ''n'')\<rparr>"
  by (simp add: parse_token_def py_index_def phrase_def)

lemma mapM_parse_token_phrases:
  "mapM parse_token (map phrase ss) =
     Inr (map (\<lambda>s. \<lparr>tok_str = JStr (ascii s), tok_tag = JStr (ascii ''n'')\<rparr>) ss)"
  by (induction ss) (simp_all add: parse_token_phrase)

lemma mapM_str_of_JStr: "mapM str_of (map (\<lambda>s. JStr (f s)) ss) = Inr (map f ss)"
  by (induction ss) (simp_all add: str_of_def)

lemma phrase_tokens_phrases_api:
  "phrase_tokens wd (call_texsmart_api (phrases_api ss) txt) =
     Inr (filter (\<lambda>word. \<not> punct_search wd word) (map ascii ss))"
  by (simp add: phrase_tokens_def call_texsmart_api_def phrases_api_def
      parse_texsmart_response_def py_get_def py_iter_def mapM_parse_token_phrases
      remove_punctuation_def o_def mapM_str_of_JStr)

subsection \<open>The store and the term-frequency pipeline\<close>

lemma load_yaml_dict_file [simp]:
  "unrecognized_words_yaml (snd (load_yaml_dict cfg file w)) = unrecognized_words_yaml w"
  by (simp add: load_yaml_dict_def Let_def split: option.splits sum.splits)

lemma remove_meaningless_file [simp]:
  "unrecognized_words_yaml (snd (remove_meaningless cfg txt w)) = unrecognized_words_yaml w"
proof -
  have "snd (remove_meaningless cfg txt w) = snd (load_yaml_dict cfg (ascii ''meaningless'') w)"
    by (simp add: remove_meaningless_def split: prod.splits sum.splits)
  then show ?thesis by simp
qed

lemma stored_words_cong:
  "unrecognized_words_yaml v = unrecognized_words_yaml w \<Longrightarrow> stored_words v = stored_words w"
  by (simp add: stored_words_def)

lemma count_list_distinct: "distinct xs \<Longrightarrow> x \<in> set xs \<Longrightarrow> count_list xs x = 1"
  by (induction xs) auto

lemma Counter_sorted_set:
  "Counter (sorted_set xs) = (\<lambda>x. if x \<in> set xs then Some 1 else None)"
  by (auto simp: Counter_def fun_eq_iff count_list_distinct)

lemma Counter_Nil [simp]: "Counter [] = Map.empty"
  by (simp add: Counter_def)

lemma term_freq_Inr:
  assumes "term_freq wd dg cfg api txt w = (Inr res, w')"
  obtains t1 where "remove_meaningless cfg txt w = (Inr t1, w')"
    and "term_freq_of_response wd dg (call_texsmart_api api t1) = Inr res"
  using assms by (auto simp: term_freq_def split: prod.splits sum.splits)

lemma term_freq_of_response_Inr:
  assumes "term_freq_of_response wd dg resp = Inr (freq, labels, rel)"
  obtains parsed rels ws ls rs where
    "parse_texsmart_response resp = Inr parsed"
    "mapM (\<lambda>e. py_iter (related e)) (entity_list parsed) = Inr rels"
    "remove_punctuation wd (map tok_str (word_list parsed)) = Inr ws"
    "remove_punctuation wd (map i18n (entity_list parsed)) = Inr ls"
    "remove_punctuation wd (concat rels) = Inr rs"
    "freq = Counter (sorted_set (remove_unless_words dg ws))"
    "labels = sorted_set ls" "rel = sorted_set rs"
  using assms by (auto simp: term_freq_of_response_def sbind_Inr_iff)

lemma term_freq_response_seen:
  "response_seen cfg api txt w = Some resp \<Longrightarrow>
     fst (term_freq wd dg cfg api txt w) = term_freq_of_response wd dg resp"
  by (auto simp: response_seen_def term_freq_def split: prod.splits sum.splits)

lemma loaded_world_response_seen:
  "response_seen cfg (const_api resp) txt (loaded_world file) = Some resp"
  by (simp add: response_seen_def loaded_world_normalize call_texsmart_api_def const_api_def)

lemma loaded_world_term_freq:
  "term_freq wd dg cfg (const_api resp) txt (loaded_world file) =
     (term_freq_of_response wd dg resp, loaded_world file)"
  by (simp add: term_freq_def loaded_world_normalize call_texsmart_api_def const_api_def)

lemma load_yaml_dict_file_eq:
  "load_yaml_dict cfg f w = (res, w1) \<Longrightarrow> unrecognized_words_yaml w1 = unrecognized_words_yaml w"
  using load_yaml_dict_file [of cfg f w] by simp

lemma remove_meaningless_file_eq:
  "remove_meaningless cfg t w = (res, w1) \<Longrightarrow> unrecognized_words_yaml w1 = unrecognized_words_yaml w"
  using remove_meaningless_file [of cfg t w] by simp

lemma sentiment_Inr_world:
  assumes "sentiment wd cfg api t w = (Inr r, w')"
  obtains us w3 where "w' = save_unrecognized_words us w3"
    and "unrecognized_words_yaml w3 = unrecognized_words_yaml w"
proof -
  from assms obtain t1 w1 pd w2 nd w3 tokens where steps:
    "remove_meaningless cfg t w = (Inr t1, w1)"
    "load_yaml_dict cfg (ascii ''positive'') w1 = (Inr pd, w2)"
    "load_yaml_dict cfg (ascii ''negative'') w2 = (Inr nd, w3)"
    "phrase_tokens wd (call_texsmart_api api t1) = Inr tokens"
    by (rule sentiment_Inr)
  have "unrecognized_words_yaml w3 = unrecognized_words_yaml w"
    using steps(1-3) by (simp add: load_yaml_dict_file_eq remove_meaningless_file_eq)
  moreover have "w' = snd (sentiment wd cfg api t w)"
    by (simp only: assms snd_conv)
  then have "\<exists>us. w' = save_unrecognized_words us w3"
    unfolding sentiment_run [OF steps] snd_conv by (rule exI)
  ultimately show thesis using that by blast
qed

subsection \<open>The filters\<close>

lemma str_of_Inr_iff: "str_of x = Inr s \<longleftrightarrow> x = JStr s"
  by (cases x) (auto simp: str_of_def)

lemma mapM_str_of_Inr: "mapM str_of xs = Inr ss \<longleftrightarrow> xs = map JStr ss"
proof (induction xs arbitrary: ss)
  case Nil
  then show ?case by auto
next
  case (Cons x xs)
  show ?case
    by (cases ss) (auto simp: sbind_Inr_iff Cons.IH str_of_Inr_iff)
qed

lemma remove_punctuation_Inr:
  "remove_punctuation wd xs = Inr ys \<longleftrightarrow>
     (\<exists>ss. xs = map JStr ss \<and> ys = filter (\<lambda>s. \<not> punct_search wd s) ss)"
  by (auto simp: remove_punctuation_def sbind_Inr_iff mapM_str_of_Inr)

lemma remove_punctuation_word_chars:
  "remove_punctuation wd xs = Inr ys \<Longrightarrow> y \<in> set ys \<Longrightarrow> c \<in> set y \<Longrightarrow> wd c"
  by (auto simp: remove_punctuation_Inr punct_search_def list_ex_iff)

lemma search_digits_unit_iff:
  "search_digits_unit dg u s \<longleftrightarrow> (\<exists>pre d post. dg d \<and> s = pre @ [d, u] @ post)"
proof (induction dg u s rule: search_digits_unit.induct)
  case (1 dg u a b cs)
  show ?case
  proof
    assume "search_digits_unit dg u (a # b # cs)"
    then consider "dg a \<and> b = u" | "search_digits_unit dg u (b # cs)" by auto
    then show "\<exists>pre d post. dg d \<and> a # b # cs = pre @ [d, u] @ post"
    proof cases
      case 1
      then have "dg a \<and> a # b # cs = [] @ [a, u] @ cs" by simp
      then show ?thesis by blast
    next
      case 2
      with 1 obtain pre d post where "dg d" "b # cs = pre @ [d, u] @ post" by blast
      then have "dg d \<and> a # b # cs = (a # pre) @ [d, u] @ post" by simp
      then show ?thesis by blast
    qed
  next
    assume "\<exists>pre d post. dg d \<and> a # b # cs = pre @ [d, u] @ post"
    then obtain pre d post where d: "dg d" and eq: "a # b # cs = pre @ [d, u] @ post" by blast
    show "search_digits_unit dg u (a # b # cs)"
    proof (cases pre)
      case Nil
      with d eq show ?thesis by simp
    next
      case (Cons p pre')
      with eq have "b # cs = pre' @ [d, u] @ post" by simp
      with d have "\<exists>pre d post. dg d \<and> b # cs = pre @ [d, u] @ post" by blast
      with 1 have "search_digits_unit dg u (b # cs)" by blast
      then show ?thesis by simp
    qed
  qed
qed (auto simp: Cons_eq_append_conv)

lemma digits_before_unit:
  assumes "ds \<noteq> []" "list_all dg ds" "t = pre @ ds @ [u] @ post"
  shows "search_digits_unit dg u t"
proof -
  from assms(1) have ds: "ds = butlast ds @ [last ds]" by simp
  from assms(1,2) have "dg (last ds)" by (simp add: list_all_iff)
  moreover have "t = (pre @ butlast ds) @ [last ds, u] @ post"
    using assms(3) by (subst (asm) ds) simp
  ultimately show ?thesis
    unfolding search_digits_unit_iff by blast
qed

lemma remove_unless_words_kept:
  assumes "t \<in> set (remove_unless_words dg ws)"
  shows "t \<in> set ws" "1 < length t" "\<not> list_all dg t"
    "\<not> search_digits_unit dg year_char t" "\<not> search_digits_unit dg month_char t"
    "\<not> search_digits_unit dg day_char t" "\<not> search_digits_unit dg minute_char t"
  using assms
  by (auto simp: remove_unless_words_def is_unwanted_def search_only_digits_def)

lemma list_all2_pick:
  "list_all2 P xs ys \<Longrightarrow> x \<in> set xs \<Longrightarrow> \<exists>y \<in> set ys. P x y"
  by (induction rule: list_all2_induct) auto

lemma parse_entity_list:
  assumes "parse_texsmart_response resp = Inr parsed"
    and "py_get resp (ascii ''entity_list'') (JList []) = Inr el" and "py_iter el = Inr es"
  shows "list_all2 (\<lambda>x y. parse_entity x = Inr y) es (entity_list parsed)"
  using assms
  by (auto simp: parse_texsmart_response_def sbind_Inr_iff mapM_Inr_iff)

lemma parse_entity_no_label:
  assumes "parse_entity e = Inr ent" and "py_index e (ascii ''type'') = Inr (JObj kvs)"
    and "map_of kvs (ascii ''i18n'') = None"
  shows "i18n ent = JStr []"
  using assms by (auto simp: parse_entity_def sbind_Inr_iff py_get_def)

subsection \<open>Normalization of a shaped response\<close>

lemma mapM_all:
  "list_all P xs \<Longrightarrow> (\<And>x. P x \<Longrightarrow> f x = Inr (g x)) \<Longrightarrow> mapM f xs = Inr (map g xs)"
  by (induction xs) simp_all

lemma parse_token_shaped: "token_shaped x \<Longrightarrow> parse_token x = Inr (shaped_token x)"
  by (cases x)
     (auto simp: token_shaped_def has_key_def parse_token_def py_index_def shaped_token_def
        lookup_or_def)

lemma parse_entity_shaped: "entity_shaped x \<Longrightarrow> parse_entity x = Inr (shaped_entity x)"
  by (cases x)
     (auto simp: entity_shaped_def token_shaped_def has_key_def is_object_def parse_entity_def
        py_index_def py_get_def shaped_entity_def lookup_or_def split: json.splits)

lemma shaped_field:
  "is_object response \<Longrightarrow> is_list (list_field response k) \<Longrightarrow>
     py_get response (ascii k) (JList []) = Inr (list_field response k)
     \<and> py_iter (list_field response k) = Inr (elements (list_field response k))"
  by (cases response; cases "list_field response k")
     (auto simp: is_object_def is_list_def list_field_def lookup_or_def py_get_def py_iter_def
        elements_def)

subsection \<open>A failed call, and the cache\<close>

lemma call_texsmart_api_failed:
  "api t = Inl failure \<Longrightarrow>
     \<exists>reason. call_texsmart_api api t = error_payload reason
       \<and> reason \<in> {''Request failed'', ''JSON decode failed'', ''An unexpected error occurred''}"
  by (cases failure) (auto simp: call_texsmart_api_def)

lemma parse_error_payload:
  "parse_texsmart_response (error_payload reason) =
     Inr \<lparr>word_list = [], phrase_list = [], entity_list = []\<rparr>"
  by (simp add: parse_texsmart_response_def error_payload_def py_get_def py_iter_def)

lemma term_freq_error_payload:
  "term_freq_of_response wd dg (error_payload reason) = Inr (Map.empty, [], [])"
  by (simp add: term_freq_of_response_def parse_error_payload remove_punctuation_def
      remove_unless_words_def sorted_set_def)

lemma phrase_tokens_error_payload: "phrase_tokens wd (error_payload reason) = Inr []"
  by (simp add: phrase_tokens_def parse_error_payload remove_punctuation_def)

lemma load_yaml_dict_Inl:
  "load_yaml_dict cfg file w = (Inl e, w1) \<Longrightarrow> cfg file = Inl e"
  by (auto simp: load_yaml_dict_def Let_def split: option.splits sum.splits)

lemma load_yaml_dict_other:
  "g \<noteq> f \<Longrightarrow>
     LOADED_DICTIONARIES (snd (load_yaml_dict cfg g w)) f = LOADED_DICTIONARIES w f
     \<and> count_list (config_loads (snd (load_yaml_dict cfg g w))) f = count_list (config_loads w) f"
  by (simp add: load_yaml_dict_def Let_def split: option.splits sum.splits)

lemma load_all_cached:
  "LOADED_DICTIONARIES w f = Some d \<Longrightarrow>
     LOADED_DICTIONARIES (load_all reqs w) f = Some d
     \<and> count_list (config_loads (load_all reqs w)) f = count_list (config_loads w) f"
proof (induction reqs arbitrary: w)
  case Nil
  then show ?case by simp
next
  case (Cons req reqs)
  obtain cfg g where req: "req = (cfg, g)" by (cases req)
  show ?case
  proof (cases "g = f")
    case True
    with Cons.prems have "snd (load_yaml_dict cfg g w) = w"
      by (simp add: load_yaml_dict_cached)
    with Cons req show ?thesis by simp
  next
    case False
    from load_yaml_dict_other [OF False, of cfg w] Cons.prems
    have "LOADED_DICTIONARIES (snd (load_yaml_dict cfg g w)) f = Some d"
      and "count_list (config_loads (snd (load_yaml_dict cfg g w))) f = count_list (config_loads w) f"
      by simp_all
    with Cons.IH [of "snd (load_yaml_dict cfg g w)"] req show ?thesis by simp
  qed
qed

lemma load_yaml_dict_once:
  assumes inv: "\<forall>g. count_list (config_loads w) g \<le> 1
           \<and> (LOADED_DICTIONARIES w g = None \<longrightarrow> count_list (config_loads w) g = 0)"
    and ok: "cfg f = Inr d"
  shows "\<forall>g. count_list (config_loads (snd (load_yaml_dict cfg f w))) g \<le> 1
           \<and> (LOADED_DICTIONARIES (snd (load_yaml_dict cfg f w)) g = None
                \<longrightarrow> count_list (config_loads (snd (load_yaml_dict cfg f w))) g = 0)"
proof (cases "LOADED_DICTIONARIES w f")
  case None
  with inv have "count_list (config_loads w) f = 0" by blast
  with inv None ok show ?thesis
    by (auto simp: load_yaml_dict_def Let_def)
next
  case (Some d0)
  with inv show ?thesis
    by (simp add: load_yaml_dict_cached)
qed

lemma load_all_once:
  assumes "\<forall>g. count_list (config_loads w) g \<le> 1
           \<and> (LOADED_DICTIONARIES w g = None \<longrightarrow> count_list (config_loads w) g = 0)"
    and "list_all (\<lambda>(cfg, g). \<exists>d. cfg g = Inr d) reqs"
  shows "count_list (config_loads (load_all reqs w)) f \<le> 1"
  using assms
proof (induction reqs arbitrary: w)
  case Nil
  then show ?case by simp
next
  case (Cons req reqs)
  obtain cfg g where req: "req = (cfg, g)" by (cases req)
  with Cons.prems(2) obtain d where ok: "cfg g = Inr d" and rest:
    "list_all (\<lambda>(cfg, g). \<exists>d. cfg g = Inr d) reqs"
    by auto
  from load_yaml_dict_once [where cfg = cfg and f = g, OF Cons.prems(1) ok] rest
  have "count_list (config_loads (load_all reqs (snd (load_yaml_dict cfg g w)))) f \<le> 1"
    by (rule Cons.IH)
  with req show ?case by simp
qed

section \<open>Sentiment classification (C1)\<close>

text \<open>
  C1: a run of \<^verbatim>\<open>sentiment\<close> whose dictionary loads succeed and whose phrase tokens,
  after the punctuation filter, are \<open>ws\<close>, reports as \<open>positive_num\<close> the number of
  occurrences in \<open>ws\<close> of tokens that are members of the positive list, as
  \<open>negative_num\<close> the number of occurrences of the other tokens that hold some entry
  of the negative list as a literal substring, and as \<open>word_num\<close> the length of \<open>ws\<close>;
  the remaining tokens, deduplicated and sorted, are the unrecognized bucket that is
  handed to the store. With the positive list \<open>["good"]\<close>, the negative list \<open>["bad"]\<close>
  and the tokens \<open>["good", "badtime", "neutral"]\<close> the report is 1, 1, 3 and the
  unrecognized bucket is \<open>["neutral"]\<close>.
\<close>

theorem sentiment_classification:
  assumes "remove_meaningless cfg txt w = (Inr t1, w1)"
    and "load_yaml_dict cfg (ascii ''positive'') w1 = (Inr pd, w2)"
    and "load_yaml_dict cfg (ascii ''negative'') w2 = (Inr nd, w3)"
    and "phrase_tokens wd (call_texsmart_api api t1) = Inr ws"
    and "pos = dict_get pd (ascii ''positive'') []"
    and "neg = dict_get nd (ascii ''negative'') []"
  shows "sentiment wd cfg api txt w =
           (Inr \<lparr>positive_num = int (length (filter (\<lambda>x. x \<in> set pos) ws)),
                 negative_num =
                   int (length (filter (\<lambda>x. x \<notin> set pos \<and> (\<exists>nw \<in> set neg. sublist nw x)) ws)),
                 word_num = int (length ws)\<rparr>,
            save_unrecognized_words
              (sorted_set (filter (\<lambda>x. x \<notin> set pos \<and> \<not> (\<exists>nw \<in> set neg. sublist nw x)) ws)) w3)
       \<and> snd (snd (classify pos neg ws (0, 0, no_buckets))) =
           \<lparr>positive = filter (\<lambda>x. x \<in> set pos) ws,
            negative = filter (\<lambda>x. x \<notin> set pos \<and> (\<exists>nw \<in> set neg. sublist nw x)) ws,
            unrecognized = filter (\<lambda>x. x \<notin> set pos \<and> \<not> (\<exists>nw \<in> set neg. sublist nw x)) ws\<rparr>
       \<and> (pos = [ascii ''good''] \<and> neg = [ascii ''bad'']
            \<and> ws = [ascii ''good'', ascii ''badtime'', ascii ''neutral'']
          \<longrightarrow> sentiment wd cfg api txt w =
                (Inr \<lparr>positive_num = 1, negative_num = 1, word_num = 3\<rparr>,
                 save_unrecognized_words [ascii ''neutral''] w3))"
proof -
  have run: "sentiment wd cfg api txt w =
           (Inr \<lparr>positive_num = int (length (filter (\<lambda>x. x \<in> set pos) ws)),
                 negative_num =
                   int (length (filter (\<lambda>x. x \<notin> set pos \<and> (\<exists>nw \<in> set neg. sublist nw x)) ws)),
                 word_num = int (length ws)\<rparr>,
            save_unrecognized_words
              (sorted_set (filter (\<lambda>x. x \<notin> set pos \<and> \<not> (\<exists>nw \<in> set neg. sublist nw x)) ws)) w3)"
    unfolding assms(5,6) by (rule sentiment_run [OF assms(1-4)])
  have buckets: "snd (snd (classify pos neg ws (0, 0, no_buckets))) =
           \<lparr>positive = filter (\<lambda>x. x \<in> set pos) ws,
            negative = filter (\<lambda>x. x \<notin> set pos \<and> (\<exists>nw \<in> set neg. sublist nw x)) ws,
            unrecognized = filter (\<lambda>x. x \<notin> set pos \<and> \<not> (\<exists>nw \<in> set neg. sublist nw x)) ws\<rparr>"
    by (simp add: classify_result no_buckets_def)
  have example: "sentiment wd cfg api txt w =
                (Inr \<lparr>positive_num = 1, negative_num = 1, word_num = 3\<rparr>,
                 save_unrecognized_words [ascii ''neutral''] w3)"
    if "pos = [ascii ''good'']" "neg = [ascii ''bad'']"
       "ws = [ascii ''good'', ascii ''badtime'', ascii ''neutral'']"
    unfolding run unfolding that
    by (simp add: str_contains_iff_sublist [symmetric] sorted_set_def) (simp add: ascii_def)
  from run buckets example show ?thesis by blast
qed

theorem sentiment_classification_witness:
  "sentiment basic_word good_bad_cfg (phrases_api [''good'', ''badtime'', ''neutral''])
     (ascii ''a good day, a badtime, all neutral'') (loaded_world None) =
   (Inr \<lparr>positive_num = 1, negative_num = 1, word_num = 3\<rparr>,
    loaded_world (Some [(ascii ''unrecognized'', [ascii ''neutral''])]))"
proof -
  have toks: "phrase_tokens basic_word
      (call_texsmart_api (phrases_api [''good'', ''badtime'', ''neutral''])
         (ascii ''a good day, a badtime, all neutral'')) =
      Inr [ascii ''good'', ascii ''badtime'', ascii ''neutral'']"
    unfolding phrase_tokens_phrases_api
    by (simp add: punct_search_def basic_word_def ascii_def)
  have pos: "[ascii ''good''] = dict_get [(ascii ''positive'', [ascii ''good''])] (ascii ''positive'') []"
    and neg: "[ascii ''bad''] = dict_get [(ascii ''negative'', [ascii ''bad''])] (ascii ''negative'') []"
    by (simp_all add: dict_get_def)
  have save: "save_unrecognized_words [ascii ''neutral''] (loaded_world None) =
      loaded_world (Some [(ascii ''unrecognized'', [ascii ''neutral''])])"
    by (simp add: save_unrecognized_words_def loaded_world_def sorted_set_def)
  from sentiment_classification [OF loaded_world_normalize loaded_world_positive
      loaded_world_negative toks pos neg]
  have "sentiment basic_word good_bad_cfg (phrases_api [''good'', ''badtime'', ''neutral''])
     (ascii ''a good day, a badtime, all neutral'') (loaded_world None) =
     (Inr \<lparr>positive_num = 1, negative_num = 1, word_num = 3\<rparr>,
      save_unrecognized_words [ascii ''neutral''] (loaded_world None))"
    by blast
  with save show ?thesis by simp
qed

section \<open>A failed segmentation call (C2)\<close>

text \<open>
  C2: when the call to the service fails, with any of the three classes of exception,
  the client returns an error payload instead of raising; \<^verbatim>\<open>term_freq\<close> then returns
  the empty frequency mapping with empty label and related-concept lists, and
  \<^verbatim>\<open>sentiment\<close>, once its two dictionaries are loaded, returns a report of zeros. The
  only exception that can leave \<^verbatim>\<open>sentiment\<close> on such a run is one the configuration
  source raised.
\<close>

theorem failed_call_gives_empty_results:
  assumes "remove_meaningless cfg txt w = (Inr t1, w1)"
    and "api t1 = Inl failure"
  shows "call_texsmart_api api t1 \<in>
           {error_payload ''Request failed'', error_payload ''JSON decode failed'',
            error_payload ''An unexpected error occurred''}
       \<and> term_freq wd dg cfg api txt w = (Inr (Map.empty, [], []), w1)
       \<and> (\<forall>pd w2 nd w3.
             load_yaml_dict cfg (ascii ''positive'') w1 = (Inr pd, w2) \<longrightarrow>
             load_yaml_dict cfg (ascii ''negative'') w2 = (Inr nd, w3) \<longrightarrow>
             sentiment wd cfg api txt w =
               (Inr \<lparr>positive_num = 0, negative_num = 0, word_num = 0\<rparr>,
                save_unrecognized_words [] w3))
       \<and> (\<forall>e. fst (sentiment wd cfg api txt w) = Inl e \<longrightarrow> (\<exists>f. cfg f = Inl e))"
proof -
  from assms(2) obtain reason where payload: "call_texsmart_api api t1 = error_payload reason"
    and reason: "reason \<in> {''Request failed'', ''JSON decode failed'',
        ''An unexpected error occurred''}"
    using call_texsmart_api_failed by blast
  from reason have first: "call_texsmart_api api t1 \<in>
           {error_payload ''Request failed'', error_payload ''JSON decode failed'',
            error_payload ''An unexpected error occurred''}"
    unfolding payload by blast
  have tf: "term_freq wd dg cfg api txt w = (Inr (Map.empty, [], []), w1)"
    by (simp add: term_freq_def assms(1) payload term_freq_error_payload)
  have toks: "phrase_tokens wd (call_texsmart_api api t1) = Inr []"
    by (simp add: payload phrase_tokens_error_payload)
  have zeros: "sentiment wd cfg api txt w =
               (Inr \<lparr>positive_num = 0, negative_num = 0, word_num = 0\<rparr>,
                save_unrecognized_words [] w3)"
    if "load_yaml_dict cfg (ascii ''positive'') w1 = (Inr pd, w2)"
      and "load_yaml_dict cfg (ascii ''negative'') w2 = (Inr nd, w3)" for pd w2 nd w3
    unfolding sentiment_run [OF assms(1) that toks] by (simp add: sorted_set_def)
  have only_cfg: "\<exists>f. cfg f = Inl e" if "fst (sentiment wd cfg api txt w) = Inl e" for e
    using that
    by (auto simp: sentiment_def assms(1) toks split: prod.splits sum.splits
        dest: load_yaml_dict_Inl)
  from first tf zeros only_cfg show ?thesis by blast
qed

theorem failed_call_gives_empty_results_witness:
  "term_freq basic_word basic_digit good_bad_cfg (failing_api RequestException) (ascii ''pear'')
     (loaded_world None) = (Inr (Map.empty, [], []), loaded_world None)
   \<and> sentiment basic_word good_bad_cfg (failing_api RequestException) (ascii ''pear'')
     (loaded_world None) =
     (Inr \<lparr>positive_num = 0, negative_num = 0, word_num = 0\<rparr>,
      loaded_world (Some [(ascii ''unrecognized'', [])]))"
proof -
  have fails: "failing_api RequestException (ascii ''pear'') = Inl RequestException"
    by (simp add: failing_api_def)
  have save: "save_unrecognized_words [] (loaded_world None) =
      loaded_world (Some [(ascii ''unrecognized'', [])])"
    by (simp add: save_unrecognized_words_def loaded_world_def sorted_set_def)
  from failed_call_gives_empty_results
      [where wd = basic_word and dg = basic_digit and api = "failing_api RequestException",
       OF loaded_world_normalize [of good_bad_cfg "ascii ''pear''" None] fails]
    loaded_world_positive [of good_bad_cfg None] loaded_world_negative [of good_bad_cfg None]
  have "term_freq basic_word basic_digit good_bad_cfg (failing_api RequestException) (ascii ''pear'')
     (loaded_world None) = (Inr (Map.empty, [], []), loaded_world None)"
    and "sentiment basic_word good_bad_cfg (failing_api RequestException) (ascii ''pear'')
     (loaded_world None) =
     (Inr \<lparr>positive_num = 0, negative_num = 0, word_num = 0\<rparr>,
      save_unrecognized_words [] (loaded_world None))"
    by blast+
  with save show ?thesis by simp
qed

section \<open>The normalizer (C3)\<close>

text \<open>
  C3, as stated: the normalizer is idempotent for every text. It is not. Each phrase is
  removed by one scan, and what the scan leaves can hold the phrase again: with the
  dictionary \<open>["ab"]\<close> the text \<open>aabb\<close> is normalized to \<open>ab\<close>, and \<open>ab\<close> to the empty
  text.
\<close>

theorem normalize_not_idempotent:
  "fst (remove_meaningless ab_cfg (ascii ''aabb'') (fresh_process None)) = Inr (ascii ''ab'')
   \<and> fst (remove_meaningless ab_cfg (ascii ''ab'')
            (snd (remove_meaningless ab_cfg (ascii ''aabb'') (fresh_process None)))) = Inr []
   \<and> strip_phrases [ascii ''ab''] (strip_phrases [ascii ''ab''] (ascii ''aabb''))
       \<noteq> strip_phrases [ascii ''ab''] (ascii ''aabb'')"
  by (simp add: remove_meaningless_def load_yaml_dict_def fresh_process_def ab_cfg_def
      dict_get_def ascii_def)

text \<open>
  C3, amended: a run of the normalizer that returns leaves the dictionary in the cache
  and returns the text after one \<^verbatim>\<open>replace\<close> per phrase, in dictionary order. A text
  that holds no non-empty phrase of the dictionary is returned as it is; so normalizing
  the result again, in the same process and whatever the configuration source has become,
  gives the same result whenever that result holds no phrase.
\<close>

theorem normalize_fixed_on_clean_text:
  assumes "remove_meaningless cfg txt w = (Inr t1, w1)"
  shows "LOADED_DICTIONARIES w1 (ascii ''meaningless'') \<noteq> None
       \<and> t1 = strip_phrases (cached_phrases w1) txt
       \<and> ((\<forall>p \<in> set (cached_phrases w1). p \<noteq> [] \<longrightarrow> \<not> str_contains p txt) \<longrightarrow> t1 = txt)
       \<and> ((\<forall>p \<in> set (cached_phrases w1). p \<noteq> [] \<longrightarrow> \<not> str_contains p t1)
            \<longrightarrow> remove_meaningless cfg2 t1 w1 = (Inr t1, w1))"
proof -
  note r = remove_meaningless_Inr [OF assms]
  have c: "remove_meaningless cfg2 t1 w1 = (Inr (strip_phrases (cached_phrases w1) t1), w1)"
    using r(1) by (rule remove_meaningless_cached)
  show ?thesis
    using r c by (auto simp: strip_phrases_absent)
qed

theorem normalize_fixed_on_clean_text_witness:
  "remove_meaningless ab_cfg (ascii ''xaby'') (fresh_process None) =
     (Inr (ascii ''xy''),
      \<lparr>LOADED_DICTIONARIES = [ascii ''meaningless'' \<mapsto> [(ascii ''meaningless'', [ascii ''ab''])]],
       unrecognized_words_yaml = None, config_loads = [ascii ''meaningless'']\<rparr>)
   \<and> remove_meaningless failing_cfg (ascii ''xy'')
       \<lparr>LOADED_DICTIONARIES = [ascii ''meaningless'' \<mapsto> [(ascii ''meaningless'', [ascii ''ab''])]],
        unrecognized_words_yaml = None, config_loads = [ascii ''meaningless'']\<rparr> =
     (Inr (ascii ''xy''),
      \<lparr>LOADED_DICTIONARIES = [ascii ''meaningless'' \<mapsto> [(ascii ''meaningless'', [ascii ''ab''])]],
       unrecognized_words_yaml = None, config_loads = [ascii ''meaningless'']\<rparr>)"
proof -
  let ?w1 = "\<lparr>LOADED_DICTIONARIES = [ascii ''meaningless'' \<mapsto> [(ascii ''meaningless'', [ascii ''ab''])]],
       unrecognized_words_yaml = None, config_loads = [ascii ''meaningless'']\<rparr>"
  have run: "remove_meaningless ab_cfg (ascii ''xaby'') (fresh_process None) = (Inr (ascii ''xy''), ?w1)"
    by (simp add: remove_meaningless_def load_yaml_dict_def fresh_process_def ab_cfg_def
        dict_get_def ascii_def)
  have clean: "\<forall>p \<in> set (cached_phrases ?w1). p \<noteq> [] \<longrightarrow> \<not> str_contains p (ascii ''xy'')"
    by (simp add: cached_phrases_def dict_get_def ascii_def)
  from normalize_fixed_on_clean_text [OF run, of "failing_cfg"] clean run
  show ?thesis by blast
qed

section \<open>Normalization of the response (C4)\<close>

text \<open>
  C4, as stated: the normalization never raises on a response with absent keys. It
  raises \<^verbatim>\<open>KeyError\<close> when a word has no \<open>str\<close>, and when an entity has no \<open>type\<close>:
  \<^verbatim>\<open>word["str"]\<close>, \<^verbatim>\<open>word["tag"]\<close> and \<^verbatim>\<open>entity["type"]\<close> are plain subscriptions.
\<close>

theorem parse_raises_on_missing_key:
  "parse_texsmart_response (JObj [(ascii ''word_list'', JList [JObj []])]) = Inl KeyError
   \<and> parse_texsmart_response
       (JObj [(ascii ''entity_list'',
               JList [JObj [(ascii ''str'', JStr (ascii ''pear'')),
                            (ascii ''tag'', JStr (ascii ''n''))]])]) = Inl KeyError"
  by (simp add: parse_texsmart_response_def py_get_def py_iter_def parse_token_def
      parse_entity_def py_index_def)

text \<open>
  C4, amended: on every response that is an object whose \<open>word_list\<close>, \<open>phrase_list\<close> and
  \<open>entity_list\<close>, where present, are lists of objects that each have \<open>str\<close> and \<open>tag\<close>,
  an entity having also an object under \<open>type\<close> and, where present, an object under
  \<open>meaning\<close>, the normalization returns: an absent list field gives the empty sequence,
  an absent \<open>i18n\<close> the empty label, an absent \<open>meaning\<close> or \<open>related\<close> the empty list of
  related concepts.
\<close>

theorem parse_shaped_response:
  assumes "response_shaped response"
  shows "parse_texsmart_response response = Inr (shaped_parse response)"
proof -
  from assms have obj: "is_object response"
    and wl: "is_list (list_field response ''word_list'')"
    and ws: "list_all token_shaped (elements (list_field response ''word_list''))"
    and pl: "is_list (list_field response ''phrase_list'')"
    and ps: "list_all token_shaped (elements (list_field response ''phrase_list''))"
    and el: "is_list (list_field response ''entity_list'')"
    and es: "list_all entity_shaped (elements (list_field response ''entity_list''))"
    by (simp_all add: response_shaped_def)
  have words: "mapM parse_token (elements (list_field response ''word_list'')) =
      Inr (map shaped_token (elements (list_field response ''word_list'')))"
    using ws by (rule mapM_all) (rule parse_token_shaped)
  have phrases: "mapM parse_token (elements (list_field response ''phrase_list'')) =
      Inr (map shaped_token (elements (list_field response ''phrase_list'')))"
    using ps by (rule mapM_all) (rule parse_token_shaped)
  have entities: "mapM parse_entity (elements (list_field response ''entity_list'')) =
      Inr (map shaped_entity (elements (list_field response ''entity_list'')))"
    using es by (rule mapM_all) (rule parse_entity_shaped)
  show ?thesis
    by (simp add: parse_texsmart_response_def shaped_field [OF obj wl] shaped_field [OF obj pl]
        shaped_field [OF obj el] words phrases entities shaped_parse_def)
qed

theorem parse_shaped_response_witness:
  "parse_texsmart_response unlabelled_response =
     Inr \<lparr>word_list = [], phrase_list = [],
          entity_list = [\<lparr>tok_str = JStr (ascii ''pear''), tok_tag = JStr (ascii ''n''),
                          i18n = JStr [], related = JList []\<rparr>]\<rparr>"
proof -
  have shaped: "response_shaped unlabelled_response"
    by (simp add: response_shaped_def unlabelled_response_def is_object_def is_list_def
        list_field_def lookup_or_def elements_def entity_shaped_def token_shaped_def has_key_def)
  have "shaped_parse unlabelled_response =
     \<lparr>word_list = [], phrase_list = [],
      entity_list = [\<lparr>tok_str = JStr (ascii ''pear''), tok_tag = JStr (ascii ''n''),
                      i18n = JStr [], related = JList []\<rparr>]\<rparr>"
    by (simp add: shaped_parse_def unlabelled_response_def list_field_def lookup_or_def
        elements_def shaped_entity_def)
  with parse_shaped_response [OF shaped] show ?thesis by simp
qed

section \<open>Token filtering (C5)\<close>

text \<open>
  C5, as stated: no single-character token, no pure-digit token and no digits-and-unit
  token appears in the label list or in the related-concept list. \<^verbatim>\<open>term_freq\<close> passes only
  the words through \<^verbatim>\<open>_remove_unless_words\<close>; the labels and the related concepts go
  through the punctuation filter alone. For a response whose entity has the label \<open>5\<close>
  and the related concepts \<open>2024\<close> followed by the year character, and \<open>7\<close>, the label
  list is \<open>["5"]\<close> and the related list holds both concepts.
\<close>

theorem labels_keep_digits_and_units:
  "term_freq basic_word basic_digit good_bad_cfg (const_api date_response) (ascii ''pear'')
     (loaded_world None) =
     (Inr (Counter [ascii ''pear''], [ascii ''5''], [ascii ''2024'' @ [year_char], ascii ''7'']),
      loaded_world None)
   \<and> length (ascii ''5'') = 1 \<and> list_all basic_digit (ascii ''5'')
   \<and> list_all basic_digit (ascii ''2024'')"
  unfolding loaded_world_term_freq
  by (simp add: term_freq_of_response_def date_response_def parse_texsmart_response_def
      py_get_def py_iter_def py_index_def parse_token_def parse_entity_def phrase_def
      remove_punctuation_def str_of_def punct_search_def basic_word_def
      remove_unless_words_def is_unwanted_def search_only_digits_def basic_digit_def
      sorted_set_def year_char_def month_char_def day_char_def minute_char_def ascii_def)

text \<open>
  C5, amended: when \<^verbatim>\<open>term_freq\<close> returns, no token that holds a non-word character is a
  key of the frequency mapping or an element of the label list or of the related-concept
  list; and every key of the frequency mapping is longer than one character, is not made
  of digits only, and holds nowhere a run of digits followed by the year, month, day or
  minute character.
\<close>

theorem term_freq_filtered:
  assumes "term_freq wd dg cfg api txt w = (Inr (freq, labels, rel), w')"
  shows "(\<forall>t \<in> dom freq \<union> set labels \<union> set rel. \<forall>c \<in> set t. wd c)
       \<and> (\<forall>t \<in> dom freq. 1 < length t \<and> \<not> list_all dg t
            \<and> (\<forall>pre ds u post. ds \<noteq> [] \<and> list_all dg ds
                  \<and> u \<in> {year_char, month_char, day_char, minute_char}
                  \<longrightarrow> t \<noteq> pre @ ds @ [u] @ post))"
proof -
  from assms obtain t1 where
    res: "term_freq_of_response wd dg (call_texsmart_api api t1) = Inr (freq, labels, rel)"
    by (rule term_freq_Inr)
  from res obtain parsed rels ws ls rs where
    "parse_texsmart_response (call_texsmart_api api t1) = Inr parsed"
    "mapM (\<lambda>e. py_iter (related e)) (entity_list parsed) = Inr rels"
    and ws: "remove_punctuation wd (map tok_str (word_list parsed)) = Inr ws"
    and ls: "remove_punctuation wd (map i18n (entity_list parsed)) = Inr ls"
    and rs: "remove_punctuation wd (concat rels) = Inr rs"
    and freq: "freq = Counter (sorted_set (remove_unless_words dg ws))"
    and labels: "labels = sorted_set ls" and rel: "rel = sorted_set rs"
    by (rule term_freq_of_response_Inr)
  have dom: "dom freq = set (remove_unless_words dg ws)"
    unfolding freq by (auto simp: Counter_sorted_set split: if_splits)
  have chars: "\<forall>c \<in> set t. wd c" if "t \<in> dom freq \<union> set labels \<union> set rel" for t
  proof -
    from that dom labels rel consider "t \<in> set ws" | "t \<in> set ls" | "t \<in> set rs"
      by (auto dest: remove_unless_words_kept(1))
    then show ?thesis
      by cases (blast intro: remove_punctuation_word_chars [OF ws]
          remove_punctuation_word_chars [OF ls] remove_punctuation_word_chars [OF rs])+
  qed
  have kept: "1 < length t \<and> \<not> list_all dg t
            \<and> (\<forall>pre ds u post. ds \<noteq> [] \<and> list_all dg ds
                  \<and> u \<in> {year_char, month_char, day_char, minute_char}
                  \<longrightarrow> t \<noteq> pre @ ds @ [u] @ post)" if "t \<in> dom freq" for t
  proof -
    from that dom have t: "t \<in> set (remove_unless_words dg ws)" by simp
    note k = remove_unless_words_kept [OF t]
    have "t \<noteq> pre @ ds @ [u] @ post"
      if "ds \<noteq> []" "list_all dg ds" "u \<in> {year_char, month_char, day_char, minute_char}"
      for pre ds u post
    proof
      assume "t = pre @ ds @ [u] @ post"
      with that(1,2) have "search_digits_unit dg u t" by (rule digits_before_unit)
      with that(3) k(4-7) show False by auto
    qed
    with k(2,3) show ?thesis by blast
  qed
  from chars kept show ?thesis by blast
qed

theorem term_freq_filtered_witness:
  "term_freq basic_word basic_digit good_bad_cfg (const_api date_response) (ascii ''pear 5'')
     (loaded_world None) =
     (Inr (Counter [ascii ''pear''], [ascii ''5''], [ascii ''2024'' @ [year_char], ascii ''7'']),
      loaded_world None)
   \<and> dom (Counter [ascii ''pear'']) = {ascii ''pear''}
   \<and> list_all basic_word (ascii ''pear'') \<and> list_all basic_word (ascii ''5'')
   \<and> 1 < length (ascii ''pear'') \<and> \<not> list_all basic_digit (ascii ''pear'')"
proof -
  have run: "term_freq basic_word basic_digit good_bad_cfg (const_api date_response)
     (ascii ''pear 5'') (loaded_world None) =
     (Inr (Counter [ascii ''pear''], [ascii ''5''], [ascii ''2024'' @ [year_char], ascii ''7'']),
      loaded_world None)"
    unfolding loaded_world_term_freq
    by (simp add: term_freq_of_response_def date_response_def parse_texsmart_response_def
      py_get_def py_iter_def py_index_def parse_token_def parse_entity_def phrase_def
      remove_punctuation_def str_of_def punct_search_def basic_word_def
      remove_unless_words_def is_unwanted_def search_only_digits_def basic_digit_def
      sorted_set_def year_char_def month_char_def day_char_def minute_char_def ascii_def)
  have dom: "dom (Counter [ascii ''pear'']) = {ascii ''pear''}"
    by (auto simp: Counter_def split: if_splits)
  from term_freq_filtered [OF run] have
    "(\<forall>t \<in> dom (Counter [ascii ''pear'']) \<union> set [ascii ''5'']
          \<union> set [ascii ''2024'' @ [year_char], ascii ''7'']. \<forall>c \<in> set t. basic_word c)"
    and "\<forall>t \<in> dom (Counter [ascii ''pear'']). 1 < length t \<and> \<not> list_all basic_digit t"
    by blast+
  with run dom show ?thesis by (simp add: list_all_iff)
qed

section \<open>Term frequencies (C6)\<close>

text \<open>
  C6: when \<^verbatim>\<open>term_freq\<close> returns, its frequency mapping is the \<^verbatim>\<open>Counter\<close> of a sorted
  list without duplicates, so every count in it is 1; and the three outputs are determined
  by the response alone: any run, on whatever text, dictionaries and process state, that
  receives the same response returns the same outputs.
\<close>

theorem term_freq_counts_one:
  assumes "term_freq wd dg cfg api txt w = (Inr (freq, labels, rel), w')"
  shows "(\<exists>ws. sorted ws \<and> distinct ws \<and> freq = Counter ws \<and> dom freq = set ws)
       \<and> (\<forall>t c. freq t = Some c \<longrightarrow> c = 1)
       \<and> (\<forall>cfg2 api2 txt2 v.
            response_seen cfg2 api2 txt2 v = response_seen cfg api txt w \<longrightarrow>
            fst (term_freq wd dg cfg2 api2 txt2 v) = Inr (freq, labels, rel))"
proof -
  from assms obtain t1 where t1: "remove_meaningless cfg txt w = (Inr t1, w')"
    and res: "term_freq_of_response wd dg (call_texsmart_api api t1) = Inr (freq, labels, rel)"
    by (rule term_freq_Inr)
  from res obtain ws where freq: "freq = Counter (sorted_set (remove_unless_words dg ws))"
    by (rule term_freq_of_response_Inr)
  let ?ws = "sorted_set (remove_unless_words dg ws)"
  have "sorted ?ws \<and> distinct ?ws \<and> freq = Counter ?ws \<and> dom freq = set ?ws"
    unfolding freq by (auto simp: Counter_sorted_set split: if_splits)
  then have first: "\<exists>ws. sorted ws \<and> distinct ws \<and> freq = Counter ws \<and> dom freq = set ws"
    by blast
  have ones: "\<forall>t c. freq t = Some c \<longrightarrow> c = 1"
    unfolding freq by (auto simp: Counter_sorted_set split: if_splits)
  have seen: "response_seen cfg api txt w = Some (call_texsmart_api api t1)"
    by (simp add: response_seen_def t1)
  have det: "\<forall>cfg2 api2 txt2 v.
            response_seen cfg2 api2 txt2 v = response_seen cfg api txt w \<longrightarrow>
            fst (term_freq wd dg cfg2 api2 txt2 v) = Inr (freq, labels, rel)"
    by (simp add: seen term_freq_response_seen res)
  from first ones det show ?thesis by blast
qed

theorem term_freq_counts_one_witness:
  "term_freq basic_word basic_digit good_bad_cfg (const_api fruit_response) (ascii ''pears'')
     (loaded_world None) =
     (Inr (Counter [ascii ''apple'', ascii ''pear''], [], []), loaded_world None)
   \<and> Counter [ascii ''apple'', ascii ''pear''] (ascii ''pear'') = Some 1
   \<and> fst (term_freq basic_word basic_digit ab_cfg (const_api fruit_response) (ascii ''other'')
            (loaded_world (Some []))) =
       Inr (Counter [ascii ''apple'', ascii ''pear''], [], [])"
proof -
  have run: "term_freq basic_word basic_digit good_bad_cfg (const_api fruit_response)
     (ascii ''pears'') (loaded_world None) =
     (Inr (Counter [ascii ''apple'', ascii ''pear''], [], []), loaded_world None)"
    unfolding loaded_world_term_freq
    by (simp add: term_freq_of_response_def fruit_response_def parse_texsmart_response_def
        py_get_def py_iter_def parse_token_phrase remove_punctuation_def str_of_def
        punct_search_def basic_word_def remove_unless_words_def is_unwanted_def
        search_only_digits_def basic_digit_def sorted_set_def ascii_def)
  have one: "Counter [ascii ''apple'', ascii ''pear''] (ascii ''pear'') = Some 1"
    by (simp add: Counter_def)
  have same: "response_seen ab_cfg (const_api fruit_response) (ascii ''other'') (loaded_world (Some []))
      = response_seen good_bad_cfg (const_api fruit_response) (ascii ''pears'') (loaded_world None)"
    by (simp add: loaded_world_response_seen)
  from term_freq_counts_one [OF run] same one run show ?thesis by blast
qed

section \<open>The unrecognized-word store (C7)\<close>

text \<open>
  C7: after \<^verbatim>\<open>_save_unrecognized_words\<close> the file holds, under the one key
  \<open>unrecognized\<close>, the sorted list without duplicates of the union of the list it held
  before (empty when there was no file) and the words of this run. So no stored word is
  lost by any sequence of saves, two saves leave the union of both runs' words, and a
  run of \<^verbatim>\<open>sentiment\<close> that returns has kept every word that was stored before it.
\<close>

theorem unrecognized_store_grows:
  "stored_words (save_unrecognized_words ws w) = sorted_list_of_set (set (stored_words w) \<union> set ws)
   \<and> unrecognized_words_yaml (save_unrecognized_words ws w) =
       Some [(ascii ''unrecognized'', sorted_list_of_set (set (stored_words w) \<union> set ws))]
   \<and> set (stored_words w) \<subseteq> set (stored_words (save_runs runs w))
   \<and> stored_words (save_unrecognized_words ws2 (save_unrecognized_words ws1 w)) =
       sorted_list_of_set (set (stored_words w) \<union> set ws1 \<union> set ws2)
   \<and> (sentiment wd cfg api txt w = (Inr r, w') \<longrightarrow> set (stored_words w) \<subseteq> set (stored_words w'))"
proof -
  have one: "stored_words (save_unrecognized_words ws w) =
      sorted_list_of_set (set (stored_words w) \<union> set ws)" for ws w
    by (simp add: stored_words_save sorted_set_eq)
  have stored: "unrecognized_words_yaml (save_unrecognized_words ws w) =
       Some [(ascii ''unrecognized'', sorted_list_of_set (set (stored_words w) \<union> set ws))]"
    by (simp add: stored_words_save sorted_set_eq)
  have runs: "set (stored_words w) \<subseteq> set (stored_words (save_runs runs w))"
    by (simp add: stored_words_save_runs)
  have two: "stored_words (save_unrecognized_words ws2 (save_unrecognized_words ws1 w)) =
       sorted_list_of_set (set (stored_words w) \<union> set ws1 \<union> set ws2)"
    by (simp add: one)
  have sent: "set (stored_words w) \<subseteq> set (stored_words w')"
    if run: "sentiment wd cfg api txt w = (Inr r, w')"
  proof -
    from run obtain us w3 where "w' = save_unrecognized_words us w3"
      and "unrecognized_words_yaml w3 = unrecognized_words_yaml w"
      by (rule sentiment_Inr_world)
    then show ?thesis
      by (simp add: one stored_words_cong [of w3 w])
  qed
  from one stored runs two sent show ?thesis by blast
qed

theorem unrecognized_store_grows_witness:
  "sentiment basic_word good_bad_cfg (phrases_api [''good'', ''badtime'', ''neutral''])
     (ascii ''first text'') (loaded_world None) =
     (Inr \<lparr>positive_num = 1, negative_num = 1, word_num = 3\<rparr>,
      loaded_world (Some [(ascii ''unrecognized'', [ascii ''neutral''])]))
   \<and> sentiment basic_word good_bad_cfg (phrases_api [''zebra'', ''apple'', ''zebra''])
     (ascii ''second text'') (loaded_world (Some [(ascii ''unrecognized'', [ascii ''neutral''])])) =
     (Inr \<lparr>positive_num = 0, negative_num = 0, word_num = 3\<rparr>,
      loaded_world (Some [(ascii ''unrecognized'', [ascii ''apple'', ascii ''neutral'', ascii ''zebra''])]))
   \<and> set [ascii ''neutral''] \<subseteq> set [ascii ''apple'', ascii ''neutral'', ascii ''zebra'']"
proof -
  let ?w1 = "loaded_world (Some [(ascii ''unrecognized'', [ascii ''neutral''])])"
  let ?w2 = "loaded_world (Some [(ascii ''unrecognized'', [ascii ''apple'', ascii ''neutral'', ascii ''zebra''])])"
  have toks1: "phrase_tokens basic_word
      (call_texsmart_api (phrases_api [''good'', ''badtime'', ''neutral'']) (ascii ''first text'')) =
      Inr [ascii ''good'', ascii ''badtime'', ascii ''neutral'']"
    unfolding phrase_tokens_phrases_api
    by (simp add: punct_search_def basic_word_def ascii_def)
  have toks2: "phrase_tokens basic_word
      (call_texsmart_api (phrases_api [''zebra'', ''apple'', ''zebra'']) (ascii ''second text'')) =
      Inr [ascii ''zebra'', ascii ''apple'', ascii ''zebra'']"
    unfolding phrase_tokens_phrases_api
    by (simp add: punct_search_def basic_word_def ascii_def)
  have run1: "sentiment basic_word good_bad_cfg (phrases_api [''good'', ''badtime'', ''neutral''])
     (ascii ''first text'') (loaded_world None) =
     (Inr \<lparr>positive_num = 1, negative_num = 1, word_num = 3\<rparr>, ?w1)"
    unfolding sentiment_run [OF loaded_world_normalize loaded_world_positive
        loaded_world_negative toks1]
    by (simp add: dict_get_def str_contains_iff_sublist [symmetric] sorted_set_def
        save_unrecognized_words_def loaded_world_def) (simp add: ascii_def)
  have run2: "sentiment basic_word good_bad_cfg (phrases_api [''zebra'', ''apple'', ''zebra''])
     (ascii ''second text'') ?w1 =
     (Inr \<lparr>positive_num = 0, negative_num = 0, word_num = 3\<rparr>, ?w2)"
    unfolding sentiment_run [OF loaded_world_normalize loaded_world_positive
        loaded_world_negative toks2]
    by (simp add: dict_get_def str_contains_iff_sublist [symmetric] sorted_set_def
        save_unrecognized_words_def loaded_world_def) (simp add: ascii_def)
  have st1: "stored_words ?w1 = [ascii ''neutral'']"
    and st2: "stored_words ?w2 = [ascii ''apple'', ascii ''neutral'', ascii ''zebra'']"
    by (simp_all add: stored_words_def loaded_world_def dict_get_def)
  from unrecognized_store_grows [of "[]" ?w1 "[]" "[]" "[]" basic_word good_bad_cfg
      "phrases_api [''zebra'', ''apple'', ''zebra'']" "ascii ''second text''" _ ?w2] run2
  have "set (stored_words ?w1) \<subseteq> set (stored_words ?w2)"
    by blast
  with run1 run2 show ?thesis
    unfolding st1 st2 by blast
qed

section \<open>The dictionary cache (C8)\<close>

text \<open>
  C8, as stated: the source is read at most once per name per process. A load whose read
  of the source raises leaves the cache as it was, so the next load of the same name
  reads the source again: two loads of \<open>positive\<close>, the first against a source that
  fails, read the source twice.
\<close>

theorem failed_load_is_read_again:
  "fst (load_yaml_dict failing_cfg (ascii ''positive'') (fresh_process None))
     = Inl ConfigError
   \<and> LOADED_DICTIONARIES
       (snd (load_yaml_dict failing_cfg (ascii ''positive'') (fresh_process None)))
       (ascii ''positive'') = None
   \<and> config_loads
       (load_all [(failing_cfg, ascii ''positive''), (good_bad_cfg, ascii ''positive'')]
          (fresh_process None)) = [ascii ''positive'', ascii ''positive'']"
  by (simp add: load_yaml_dict_def fresh_process_def good_bad_cfg_def failing_cfg_def)

text \<open>
  C8, amended: a load of a name that is not in the cache reads the source; when that read
  succeeds, the result is returned and stored in the cache under the name, and from then
  on, whatever else the process loads and whatever the source has become, every load of
  the name returns the stored value, leaves the process as it is, and the source is never
  read for that name again. In a process that starts with an empty cache and in which no
  read of the source fails, the source is read at most once per name.
\<close>

theorem cached_dictionary_not_reread:
  assumes "LOADED_DICTIONARIES w f = None" and "cfg f = Inr d"
  shows "load_yaml_dict cfg f w =
           (Inr d, w\<lparr>config_loads := config_loads w @ [f],
                     LOADED_DICTIONARIES := (LOADED_DICTIONARIES w)(f \<mapsto> d)\<rparr>)
       \<and> (\<forall>reqs cfg2.
             load_yaml_dict cfg2 f (load_all reqs (snd (load_yaml_dict cfg f w))) =
               (Inr d, load_all reqs (snd (load_yaml_dict cfg f w)))
             \<and> count_list (config_loads (load_all reqs (snd (load_yaml_dict cfg f w)))) f =
                 count_list (config_loads w) f + 1)
       \<and> (\<forall>reqs fl. list_all (\<lambda>(c, g). \<exists>d. c g = Inr d) reqs \<longrightarrow>
             count_list (config_loads (load_all reqs (fresh_process fl))) f \<le> 1)"
proof -
  let ?w1 = "w\<lparr>config_loads := config_loads w @ [f],
               LOADED_DICTIONARIES := (LOADED_DICTIONARIES w)(f \<mapsto> d)\<rparr>"
  have first: "load_yaml_dict cfg f w = (Inr d, ?w1)"
    using assms by (simp add: load_yaml_dict_def)
  have cached: "LOADED_DICTIONARIES ?w1 f = Some d"
    by simp
  have later: "load_yaml_dict cfg2 f (load_all reqs (snd (load_yaml_dict cfg f w))) =
               (Inr d, load_all reqs (snd (load_yaml_dict cfg f w)))
             \<and> count_list (config_loads (load_all reqs (snd (load_yaml_dict cfg f w)))) f =
                 count_list (config_loads w) f + 1" for reqs cfg2
    using load_all_cached [OF cached, of reqs]
    by (simp add: first load_yaml_dict_cached)
  have once: "count_list (config_loads (load_all reqs (fresh_process fl))) f \<le> 1"
    if "list_all (\<lambda>(c, g). \<exists>d. c g = Inr d) reqs" for reqs fl
    by (rule load_all_once [OF _ that]) (simp add: fresh_process_def)
  from first later once show ?thesis by blast
qed

theorem cached_dictionary_not_reread_witness:
  "load_yaml_dict failing_cfg (ascii ''positive'')
     (load_all [(failing_cfg, ascii ''negative''), (good_bad_cfg, ascii ''positive'')]
        (snd (load_yaml_dict good_bad_cfg (ascii ''positive'') (fresh_process None)))) =
     (Inr [(ascii ''positive'', [ascii ''good''])],
      load_all [(failing_cfg, ascii ''negative''), (good_bad_cfg, ascii ''positive'')]
        (snd (load_yaml_dict good_bad_cfg (ascii ''positive'') (fresh_process None))))
   \<and> count_list
       (config_loads
         (load_all [(failing_cfg, ascii ''negative''), (good_bad_cfg, ascii ''positive'')]
            (snd (load_yaml_dict good_bad_cfg (ascii ''positive'') (fresh_process None)))))
       (ascii ''positive'') = 1
   \<and> config_loads
       (load_all [(good_bad_cfg, ascii ''positive''), (good_bad_cfg, ascii ''negative''),
                  (good_bad_cfg, ascii ''positive'')] (fresh_process None))
       = [ascii ''positive'', ascii ''negative'']"
proof -
  have none: "LOADED_DICTIONARIES (fresh_process None) (ascii ''positive'') = None"
    by (simp add: fresh_process_def)
  have ok: "good_bad_cfg (ascii ''positive'') = Inr [(ascii ''positive'', [ascii ''good''])]"
    by (simp add: good_bad_cfg_def)
  have zero: "count_list (config_loads (fresh_process None)) (ascii ''positive'') = 0"
    by (simp add: fresh_process_def)
  have run: "config_loads
       (load_all [(good_bad_cfg, ascii ''positive''), (good_bad_cfg, ascii ''negative''),
                  (good_bad_cfg, ascii ''positive'')] (fresh_process None))
       = [ascii ''positive'', ascii ''negative'']"
    by (simp add: load_yaml_dict_def fresh_process_def good_bad_cfg_def failing_cfg_def)
  let ?v = "load_all [(failing_cfg, ascii ''negative''), (good_bad_cfg, ascii ''positive'')]
        (snd (load_yaml_dict good_bad_cfg (ascii ''positive'') (fresh_process None)))"
  from cached_dictionary_not_reread
      [where cfg = good_bad_cfg and f = "ascii ''positive''", OF none ok]
  have inst: "load_yaml_dict failing_cfg (ascii ''positive'') ?v =
        (Inr [(ascii ''positive'', [ascii ''good''])], ?v)
      \<and> count_list (config_loads ?v) (ascii ''positive'') =
          count_list (config_loads (fresh_process None)) (ascii ''positive'') + 1"
    by blast
  with zero have "count_list (config_loads ?v) (ascii ''positive'') = 1"
    by linarith
  with inst run show ?thesis by blast
qed

section \<open>The counters of a report (C9)\<close>

text \<open>
  C9: whenever \<^verbatim>\<open>sentiment\<close> returns a report, its three fields are non-negative and
  \<open>positive_num + negative_num \<le> word_num\<close>: every token counted in \<open>word_num\<close>
  raises at most one of the two counters.
\<close>

theorem sentiment_counts_bounded:
  assumes "sentiment wd cfg api txt w = (Inr r, w')"
  shows "0 \<le> positive_num r \<and> 0 \<le> negative_num r \<and> 0 \<le> word_num r
       \<and> positive_num r + negative_num r \<le> word_num r"
proof -
  from assms obtain t1 w1 pd w2 nd w3 ws where run:
    "remove_meaningless cfg txt w = (Inr t1, w1)"
    "load_yaml_dict cfg (ascii ''positive'') w1 = (Inr pd, w2)"
    "load_yaml_dict cfg (ascii ''negative'') w2 = (Inr nd, w3)"
    "phrase_tokens wd (call_texsmart_api api t1) = Inr ws"
    by (rule sentiment_Inr)
  let ?P = "\<lambda>x. x \<in> set (dict_get pd (ascii ''positive'') [])"
  let ?Q = "\<lambda>x. \<exists>nw \<in> set (dict_get nd (ascii ''negative'') []). sublist nw x"
  have r: "r = \<lparr>positive_num = int (length (filter ?P ws)),
              negative_num = int (length (filter (\<lambda>x. \<not> ?P x \<and> ?Q x) ws)),
              word_num = int (length ws)\<rparr>"
    using sentiment_run [OF run, of ] assms by simp
  have "length (filter ?P ws) + length (filter (\<lambda>x. \<not> ?P x \<and> ?Q x) ws) \<le> length ws"
    by (rule length_filter_two)
  then show ?thesis
    unfolding r by simp
qed

theorem sentiment_counts_bounded_witness:
  "sentiment basic_word good_bad_cfg (phrases_api [''bad'', ''sadbad'', ''good'', ''good''])
     (ascii ''bad sadbad good good'') (loaded_world None) =
     (Inr \<lparr>positive_num = 2, negative_num = 2, word_num = 4\<rparr>, loaded_world (Some [(ascii ''unrecognized'', [])]))
   \<and> (0::int) \<le> 2 \<and> (2::int) + 2 \<le> 4"
proof -
  have toks: "phrase_tokens basic_word
      (call_texsmart_api (phrases_api [''bad'', ''sadbad'', ''good'', ''good''])
         (ascii ''bad sadbad good good'')) =
      Inr [ascii ''bad'', ascii ''sadbad'', ascii ''good'', ascii ''good'']"
    unfolding phrase_tokens_phrases_api
    by (simp add: punct_search_def basic_word_def ascii_def)
  have run: "sentiment basic_word good_bad_cfg (phrases_api [''bad'', ''sadbad'', ''good'', ''good''])
     (ascii ''bad sadbad good good'') (loaded_world None) =
     (Inr \<lparr>positive_num = 2, negative_num = 2, word_num = 4\<rparr>,
      loaded_world (Some [(ascii ''unrecognized'', [])]))"
    unfolding sentiment_run [OF loaded_world_normalize loaded_world_positive
        loaded_world_negative toks]
    by (simp add: dict_get_def str_contains_iff_sublist [symmetric] sorted_set_def
        save_unrecognized_words_def loaded_world_def) (simp add: ascii_def)
  from sentiment_counts_bounded [OF run] run show ?thesis by simp
qed

section \<open>The empty label (C10)\<close>

text \<open>
  C10: when the response holds an entity whose \<open>type\<close> object has no \<open>i18n\<close> key, that
  entity is given the empty string as its label; the punctuation search finds nothing in
  the empty string, whatever the class of word characters; and so, when \<^verbatim>\<open>term_freq\<close>
  returns, the empty string is an element of its label list.
\<close>

theorem empty_label_returned:
  assumes "term_freq wd dg cfg api txt w = (Inr (freq, labels, rel), w')"
    and "response_seen cfg api txt w = Some resp"
    and "py_get resp (ascii ''entity_list'') (JList []) = Inr el"
    and "py_iter el = Inr es"
    and "e \<in> set es"
    and "py_index e (ascii ''type'') = Inr (JObj kvs)"
    and "map_of kvs (ascii ''i18n'') = None"
  shows "(\<exists>ent. parse_entity e = Inr ent \<and> i18n ent = JStr [])
       \<and> \<not> punct_search wd [] \<and> [] \<in> set labels"
proof -
  from assms(1) obtain t1 where t1: "remove_meaningless cfg txt w = (Inr t1, w')"
    and res0: "term_freq_of_response wd dg (call_texsmart_api api t1) = Inr (freq, labels, rel)"
    by (rule term_freq_Inr)
  from t1 assms(2) have "resp = call_texsmart_api api t1"
    by (simp add: response_seen_def)
  with res0 have res: "term_freq_of_response wd dg resp = Inr (freq, labels, rel)"
    by simp
  from res obtain parsed rels ws ls rs where
    parsed: "parse_texsmart_response resp = Inr parsed"
    and "mapM (\<lambda>e. py_iter (related e)) (entity_list parsed) = Inr rels"
    and "remove_punctuation wd (map tok_str (word_list parsed)) = Inr ws"
    and ls: "remove_punctuation wd (map i18n (entity_list parsed)) = Inr ls"
    and "remove_punctuation wd (concat rels) = Inr rs"
    and "freq = Counter (sorted_set (remove_unless_words dg ws))"
    and labels: "labels = sorted_set ls" and "rel = sorted_set rs"
    by (rule term_freq_of_response_Inr)
  from parse_entity_list [OF parsed assms(3,4)] assms(5)
  obtain ent where ent: "ent \<in> set (entity_list parsed)" "parse_entity e = Inr ent"
    by (blast dest: list_all2_pick)
  from ent(2) assms(6,7) have empty: "i18n ent = JStr []"
    by (rule parse_entity_no_label)
  from ls obtain ss where ss: "map i18n (entity_list parsed) = map JStr ss"
    and kept: "ls = filter (\<lambda>s. \<not> punct_search wd s) ss"
    unfolding remove_punctuation_Inr by blast
  have "JStr [] \<in> set (map i18n (entity_list parsed))"
    using ent(1) empty by force
  then have "[] \<in> set ss"
    unfolding ss by auto
  moreover have no_punct: "\<not> punct_search wd []"
    by (simp add: punct_search_def)
  ultimately have "[] \<in> set labels"
    unfolding labels kept by simp
  with ent(2) empty no_punct show ?thesis by blast
qed

theorem empty_label_returned_witness:
  "term_freq basic_word basic_digit good_bad_cfg (const_api unlabelled_response) (ascii ''pear'')
     (loaded_world None) = (Inr (Map.empty, [Nil], []), loaded_world None)
   \<and> [] \<in> set [Nil :: ustr]"
proof -
  let ?e = "JObj [(ascii ''str'', JStr (ascii ''pear'')), (ascii ''tag'', JStr (ascii ''n'')),
                  (ascii ''type'', JObj [(ascii ''name'', JStr (ascii ''fruit''))])]"
  have run: "term_freq basic_word basic_digit good_bad_cfg (const_api unlabelled_response)
     (ascii ''pear'') (loaded_world None) = (Inr (Map.empty, [Nil], []), loaded_world None)"
    unfolding loaded_world_term_freq
    by (simp add: term_freq_of_response_def unlabelled_response_def parse_texsmart_response_def
        py_get_def py_iter_def py_index_def parse_entity_def remove_punctuation_def str_of_def
        punct_search_def remove_unless_words_def sorted_set_def)
  have seen: "response_seen good_bad_cfg (const_api unlabelled_response) (ascii ''pear'')
      (loaded_world None) = Some unlabelled_response"
    by (rule loaded_world_response_seen)
  have el: "py_get unlabelled_response (ascii ''entity_list'') (JList []) = Inr (JList [?e])"
    by (simp add: py_get_def unlabelled_response_def)
  have es: "py_iter (JList [?e]) = Inr [?e]"
    by (simp add: py_iter_def)
  have mem: "?e \<in> set [?e]"
    by simp
  have ty: "py_index ?e (ascii ''type'') = Inr (JObj [(ascii ''name'', JStr (ascii ''fruit''))])"
    by (simp add: py_index_def)
  have none: "map_of [(ascii ''name'', JStr (ascii ''fruit''))] (ascii ''i18n'') = None"
    by simp
  from empty_label_returned [OF run seen el es mem ty none] run
  show ?thesis by blast
qed

end
